theory Spec2Isabelle
  imports Complex_Main "HOL-Library.Sublist"
begin

section \<open>Data model (src/src/types.ts)\<close>

text \<open>
  A JavaScript \<open>number\<close> is an IEEE-754 double. The arithmetic of \<open>App.vue\<close> is
  modelled over the reals: the rounding of each operation, \<open>NaN\<close> and the infinities are
  left out of \<open>number\<close>. Every formula below is the expression the source evaluates, in
  the source's order of operations.
\<close>

type_synonym number = real

text \<open>
  \<open>interface TaxElement { id: string; name: string; percentage: number }\<close>
\<close>

record TaxElement =
  tax_id :: string
  tax_name :: string
  percentage :: number

text \<open>
  \<open>interface FinancialEntry { id; description; amount; frequency; taxes? }\<close>.
  The field \<open>frequency\<close> has the TypeScript type
  \<open>'daily' | 'weekly' | 'monthly' | 'yearly'\<close>, which is erased at run time: entries
  read from a backup file or from local storage are assigned unchecked, so the field is
  a string here. \<open>taxes\<close> is optional: \<open>None\<close> is the absent list. The fields
  \<open>type\<close> and \<open>date\<close> of the later version of the interface are read by none of the
  functions of \<open>App.vue\<close> modelled here; a record extension carries them.
\<close>

record FinancialEntry =
  id' :: string
  description :: string
  amount :: number
  frequency :: string
  taxes :: "TaxElement list option"

record Summary =
  totalIncome :: number
  totalExpenses :: number
  totalTaxes :: number
  netIncome :: number
  balance :: number

text \<open>
  The two reactive lists of \<open>App.vue\<close>, \<open>incomeEntries\<close> and \<open>expenseEntries\<close>. The
  element type is a parameter: the typed operations work on entries, the structural
  import stores whatever the parsed document holds.
\<close>

record 'e store =
  incomeEntries :: "'e list"
  expenseEntries :: "'e list"


section \<open>Monthly normalisation and taxes (src/src/App.vue, lines 10 to 26)\<close>

text \<open>
  \<open>switch (entry.frequency)\<close>: three cases and a \<open>default\<close> that returns the amount.
\<close>

definition calculateMonthlyAmount :: "'a FinancialEntry_scheme \<Rightarrow> number" where
  "calculateMonthlyAmount entry =
     (if frequency entry = ''daily'' then amount entry * 30
      else if frequency entry = ''weekly'' then amount entry * 4
      else if frequency entry = ''yearly'' then amount entry / 12
      else amount entry)"

text \<open>
  \<open>if (!taxes || taxes.length === 0) return 0;\<close> then
  \<open>taxes.reduce((sum, tax) => sum + (monthlyAmount * tax.percentage / 100), 0)\<close>.
\<close>

definition calculateTaxAmount :: "number \<Rightarrow> TaxElement list option \<Rightarrow> number" where
  "calculateTaxAmount monthlyAmount taxes_opt =
     (case taxes_opt of
        None \<Rightarrow> 0
      | Some ts \<Rightarrow>
          if length ts = 0 then 0
          else foldl (\<lambda>sum tax. sum + (monthlyAmount * percentage tax / 100)) 0 ts)"


section \<open>The summary (src/src/App.vue, lines 28 to 53)\<close>

text \<open>
  The accumulator \<open>{ total, taxes }\<close> of the first \<open>reduce\<close> is a pair.
\<close>

definition incomeStep ::
  "number \<times> number \<Rightarrow> 'a FinancialEntry_scheme \<Rightarrow> number \<times> number" where
  "incomeStep acc entry =
     (let monthlyAmount = calculateMonthlyAmount entry;
          taxAmount = calculateTaxAmount monthlyAmount (taxes entry)
      in (fst acc + monthlyAmount, snd acc + taxAmount))"

definition summary :: "('a FinancialEntry_scheme) store \<Rightarrow> Summary" where
  "summary st =
     (let incomeDetails = foldl incomeStep (0, 0) (incomeEntries st);
          totalExpenses' =
            foldl (\<lambda>sum entry. sum + calculateMonthlyAmount entry) 0 (expenseEntries st)
      in \<lparr> totalIncome = fst incomeDetails,
           totalExpenses = totalExpenses',
           totalTaxes = snd incomeDetails,
           netIncome = fst incomeDetails - snd incomeDetails,
           balance = fst incomeDetails - snd incomeDetails - totalExpenses' \<rparr>)"


section \<open>The entry store (src/src/App.vue, lines 55 to 118)\<close>

text \<open>
  \<open>incomeEntries.value.push(entry)\<close> appends.
\<close>

definition addIncome :: "'e store \<Rightarrow> 'e \<Rightarrow> 'e store" where
  "addIncome st entry = st\<lparr>incomeEntries := incomeEntries st @ [entry]\<rparr>"

definition addExpense :: "'e store \<Rightarrow> 'e \<Rightarrow> 'e store" where
  "addExpense st entry = st\<lparr>expenseEntries := expenseEntries st @ [entry]\<rparr>"

text \<open>
  \<open>incomeEntries.value = incomeEntries.value.filter(entry => entry.id !== id)\<close>.
\<close>

definition removeIncome ::
  "('a FinancialEntry_scheme) store \<Rightarrow> string \<Rightarrow> ('a FinancialEntry_scheme) store" where
  "removeIncome st i = st\<lparr>incomeEntries := filter (\<lambda>entry. id' entry \<noteq> i) (incomeEntries st)\<rparr>"

definition removeExpense ::
  "('a FinancialEntry_scheme) store \<Rightarrow> string \<Rightarrow> ('a FinancialEntry_scheme) store" where
  "removeExpense st i =
     st\<lparr>expenseEntries := filter (\<lambda>entry. id' entry \<noteq> i) (expenseEntries st)\<rparr>"

text \<open>
  Every update has the shape
  \<open>const entry = list.find(entry => entry.id === entryId); if (entry) { entry.f = v; }\<close>.
  \<open>find\<close> returns a reference to the first element that satisfies the predicate, and
  the assignment through it changes that element where it stands in the list. The
  elements of a list are distinct objects (each comes from an object literal or from
  \<open>JSON.parse\<close> and is pushed once), so the assignment reaches one position only:
  \<open>assignFound p f xs\<close> applies the assignment \<open>f\<close> at the first position whose
  element satisfies \<open>p\<close>, and is \<open>xs\<close> when \<open>find\<close> returns \<open>undefined\<close>.
\<close>

fun assignFound :: "('e \<Rightarrow> bool) \<Rightarrow> ('e \<Rightarrow> 'e) \<Rightarrow> 'e list \<Rightarrow> 'e list" where
  "assignFound p f [] = []"
| "assignFound p f (x # xs) = (if p x then f x # xs else x # assignFound p f xs)"

definition updateIncomeTaxes ::
  "('a FinancialEntry_scheme) store \<Rightarrow> string \<Rightarrow> TaxElement list
     \<Rightarrow> ('a FinancialEntry_scheme) store" where
  "updateIncomeTaxes st entryId ts =
     st\<lparr>incomeEntries :=
          assignFound (\<lambda>entry. id' entry = entryId) (\<lambda>entry. entry\<lparr>taxes := Some ts\<rparr>)
            (incomeEntries st)\<rparr>"

definition updateIncomeFrequency ::
  "('a FinancialEntry_scheme) store \<Rightarrow> string \<Rightarrow> string
     \<Rightarrow> ('a FinancialEntry_scheme) store" where
  "updateIncomeFrequency st entryId fr =
     st\<lparr>incomeEntries :=
          assignFound (\<lambda>entry. id' entry = entryId) (\<lambda>entry. entry\<lparr>frequency := fr\<rparr>)
            (incomeEntries st)\<rparr>"

definition updateExpenseFrequency ::
  "('a FinancialEntry_scheme) store \<Rightarrow> string \<Rightarrow> string
     \<Rightarrow> ('a FinancialEntry_scheme) store" where
  "updateExpenseFrequency st entryId fr =
     st\<lparr>expenseEntries :=
          assignFound (\<lambda>entry. id' entry = entryId) (\<lambda>entry. entry\<lparr>frequency := fr\<rparr>)
            (expenseEntries st)\<rparr>"

definition updateIncomeDescription ::
  "('a FinancialEntry_scheme) store \<Rightarrow> string \<Rightarrow> string
     \<Rightarrow> ('a FinancialEntry_scheme) store" where
  "updateIncomeDescription st entryId d =
     st\<lparr>incomeEntries :=
          assignFound (\<lambda>entry. id' entry = entryId) (\<lambda>entry. entry\<lparr>description := d\<rparr>)
            (incomeEntries st)\<rparr>"

definition updateIncomeAmount ::
  "('a FinancialEntry_scheme) store \<Rightarrow> string \<Rightarrow> number
     \<Rightarrow> ('a FinancialEntry_scheme) store" where
  "updateIncomeAmount st entryId a =
     st\<lparr>incomeEntries :=
          assignFound (\<lambda>entry. id' entry = entryId) (\<lambda>entry. entry\<lparr>amount := a\<rparr>)
            (incomeEntries st)\<rparr>"

definition updateExpenseDescription ::
  "('a FinancialEntry_scheme) store \<Rightarrow> string \<Rightarrow> string
     \<Rightarrow> ('a FinancialEntry_scheme) store" where
  "updateExpenseDescription st entryId d =
     st\<lparr>expenseEntries :=
          assignFound (\<lambda>entry. id' entry = entryId) (\<lambda>entry. entry\<lparr>description := d\<rparr>)
            (expenseEntries st)\<rparr>"

definition updateExpenseAmount ::
  "('a FinancialEntry_scheme) store \<Rightarrow> string \<Rightarrow> number
     \<Rightarrow> ('a FinancialEntry_scheme) store" where
  "updateExpenseAmount st entryId a =
     st\<lparr>expenseEntries :=
          assignFound (\<lambda>entry. id' entry = entryId) (\<lambda>entry. entry\<lparr>amount := a\<rparr>)
            (expenseEntries st)\<rparr>"


section \<open>Structural import and restore (src/src/App.vue, lines 138 to 187)\<close>

text \<open>
  What \<open>JSON.parse\<close> returns: a JSON value. An object is the list of its own
  properties, each key once.
\<close>

datatype jsval =
    JNull
  | JBool bool
  | JNum number
  | JStr string
  | JArr "jsval list"
  | JObj "(string \<times> jsval) list"

datatype js_error = SyntaxError | TypeError

datatype notice = ConsoleError string | Alert string

text \<open>
  \<open>data.key\<close> for a key that no prototype defines (\<open>income\<close>, \<open>expenses\<close>): reading a
  property of \<open>null\<close> throws a \<open>TypeError\<close>; an object gives its own property or
  \<open>undefined\<close> (\<open>None\<close>); a boolean, a number, a string and an array give \<open>undefined\<close>.
\<close>

fun getProp :: "jsval \<Rightarrow> string \<Rightarrow> js_error + jsval option" where
  "getProp JNull key = Inl TypeError"
| "getProp (JObj props) key = Inr (map_of props key)"
| "getProp v key = Inr None"

text \<open>
  The truth value of an expression in a condition, for \<open>undefined\<close> (\<open>None\<close>) and the
  JSON values.
\<close>

fun truthy :: "jsval option \<Rightarrow> bool" where
  "truthy None = False"
| "truthy (Some JNull) = False"
| "truthy (Some (JBool b)) = b"
| "truthy (Some (JNum n)) = (n \<noteq> 0)"
| "truthy (Some (JStr s)) = (s \<noteq> [])"
| "truthy (Some (JArr xs)) = True"
| "truthy (Some (JObj props)) = True"

fun isArray :: "jsval option \<Rightarrow> bool" where
  "isArray (Some (JArr xs)) = True"
| "isArray v = False"

text \<open>
  The elements assigned by \<open>incomeEntries.value = data.income\<close>; the assignment is
  guarded by \<open>Array.isArray\<close>, so the other cases are never read.
\<close>

fun elements :: "jsval option \<Rightarrow> jsval list" where
  "elements (Some (JArr xs)) = xs"
| "elements v = []"

text \<open>
  The body of the \<open>try\<close> block shared by \<open>importData\<close> and \<open>loadFromLocalStorage\<close>,
  after \<open>JSON.parse\<close> has returned \<open>data\<close>. The result is the store as it stands when
  the block ends, and the error thrown, if any: an assignment made before a throw stays
  made.
\<close>

definition loadDocument :: "jsval store \<Rightarrow> jsval \<Rightarrow> jsval store \<times> js_error option" where
  "loadDocument st data =
     (case getProp data ''income'' of
        Inl err \<Rightarrow> (st, Some err)
      | Inr inc \<Rightarrow>
          let st1 = (if truthy inc \<and> isArray inc
                     then st\<lparr>incomeEntries := elements inc\<rparr> else st)
          in (case getProp data ''expenses'' of
                Inl err \<Rightarrow> (st1, Some err)
              | Inr exps \<Rightarrow>
                  (if truthy exps \<and> isArray exps
                   then st1\<lparr>expenseEntries := elements exps\<rparr> else st1, None)))"

text \<open>
  \<open>reader.onload\<close> of \<open>importData\<close>. The argument is the outcome of
  \<open>JSON.parse(e.target?.result)\<close>: the parsed value, or the \<open>SyntaxError\<close> it throws.
  The \<open>catch\<close> block logs and alerts; the result is the store and the notices shown.
\<close>

definition importData ::
  "jsval store \<Rightarrow> js_error + jsval \<Rightarrow> jsval store \<times> notice list" where
  "importData st parsed =
     (case parsed of
        Inl err \<Rightarrow>
          (st, [ConsoleError ''Error importing data:'',
                Alert ''Error importing data. Please check the file format.''])
      | Inr data \<Rightarrow>
          (case loadDocument st data of
             (st', None) \<Rightarrow> (st', [])
           | (st', Some err) \<Rightarrow>
               (st', [ConsoleError ''Error importing data:'',
                      Alert ''Error importing data. Please check the file format.''])))"

text \<open>
  \<open>loadFromLocalStorage\<close>. The argument is \<open>None\<close> when \<open>if (savedData)\<close> fails, that is
  when \<open>getItem\<close> returns \<open>null\<close> or the empty string, and otherwise the outcome of
  \<open>JSON.parse(savedData)\<close>. The \<open>catch\<close> block logs only.
\<close>

definition loadFromLocalStorage ::
  "jsval store \<Rightarrow> (js_error + jsval) option \<Rightarrow> jsval store \<times> notice list" where
  "loadFromLocalStorage st saved =
     (case saved of
        None \<Rightarrow> (st, [])
      | Some parsed \<Rightarrow>
          (case parsed of
             Inl err \<Rightarrow> (st, [ConsoleError ''Error loading data from localStorage:''])
           | Inr data \<Rightarrow>
               (case loadDocument st data of
                  (st', None) \<Rightarrow> (st', [])
                | (st', Some err) \<Rightarrow>
                    (st', [ConsoleError ''Error loading data from localStorage:'']))))"


section \<open>Strings and numbers of the statement parser\<close>

text \<open>
  A string is the list of its code units; the model covers code units below 256. The
  white space that \<open>trim\<close> and \<open>parseFloat\<close> strip is, in that range, TAB, LF, VT, FF, CR,
  SPACE and NO-BREAK SPACE.
\<close>

definition isWhiteSpace :: "char \<Rightarrow> bool" where
  "isWhiteSpace c =
     (c \<in> set [CHR 0x09, CHR 0x0A, CHR 0x0B, CHR 0x0C, CHR 0x0D, CHR 0x20, CHR 0xA0])"

definition trim :: "string \<Rightarrow> string" where
  "trim s = rev (dropWhile isWhiteSpace (rev (dropWhile isWhiteSpace s)))"

text \<open>
  \<open>s.split(sep)\<close> for a separator of one character: the empty string gives one empty
  field, and \<open>n\<close> separators give \<open>n + 1\<close> fields.
\<close>

fun split :: "char \<Rightarrow> string \<Rightarrow> string list" where
  "split sep [] = [[]]"
| "split sep (c # cs) =
     (if c = sep then [] # split sep cs
      else (case split sep cs of [] \<Rightarrow> [[c]] | w # ws \<Rightarrow> (c # w) # ws))"

fun join :: "string \<Rightarrow> string list \<Rightarrow> string" where
  "join sep [] = []"
| "join sep [x] = x"
| "join sep (x # y # ys) = x @ sep @ join sep (y # ys)"

text \<open>
  \<open>values[i]\<close>: the element, or \<open>undefined\<close> (\<open>None\<close>) past the end of the array.
\<close>

definition nth_opt :: "'a list \<Rightarrow> nat \<Rightarrow> 'a option" where
  "nth_opt xs i = (if i < length xs then Some (xs ! i) else None)"

text \<open>
  The numbers of the parser keep the values that decide its branches: \<open>NaN\<close>, which
  \<open>parseFloat\<close> returns for a field that is no number, and the two infinities. A finite
  number is a real, as above.
\<close>

datatype jsnumber = NaN | Num number | Infinity | NegInfinity

text \<open>
  The truth value of a number in a condition (\<open>debit ? ... : ...\<close>, \<open>debit || credit\<close>):
  false for 0 and \<open>NaN\<close>.
\<close>

fun numTruthy :: "jsnumber \<Rightarrow> bool" where
  "numTruthy NaN = False"
| "numTruthy (Num x) = (x \<noteq> 0)"
| "numTruthy Infinity = True"
| "numTruthy NegInfinity = True"

fun Math_abs :: "jsnumber \<Rightarrow> jsnumber" where
  "Math_abs NaN = NaN"
| "Math_abs (Num x) = Num \<bar>x\<bar>"
| "Math_abs Infinity = Infinity"
| "Math_abs NegInfinity = Infinity"

text \<open>
  \<open>entry.amount > 0\<close>: a comparison with \<open>NaN\<close> is false.
\<close>

fun gtZero :: "jsnumber \<Rightarrow> bool" where
  "gtZero NaN = False"
| "gtZero (Num x) = (0 < x)"
| "gtZero Infinity = True"
| "gtZero NegInfinity = False"

text \<open>
  \<open>parseFloat\<close>, the built-in: skip leading white space, then read the longest prefix
  that is a \<open>StrDecimalLiteral\<close> of ECMAScript (a sign, then \<open>Infinity\<close>, or digits with
  an optional fraction and an optional exponent, or a fraction that starts with the
  point); \<open>NaN\<close> when there is none. The value is the exact decimal value, not the
  nearest double.
\<close>

definition isDigit :: "char \<Rightarrow> bool" where
  "isDigit c = (c \<in> set ''0123456789'')"

definition digitVal :: "char \<Rightarrow> nat" where
  "digitVal c = of_char c - 48"

definition digitsVal :: "string \<Rightarrow> nat" where
  "digitsVal ds = foldl (\<lambda>n c. 10 * n + digitVal c) 0 ds"

definition pow10 :: "int \<Rightarrow> number" where
  "pow10 k = (if 0 \<le> k then 10 ^ nat k else 1 / 10 ^ nat (- k))"

text \<open>
  The value of the \<open>ExponentPart\<close> at the head of \<open>r\<close>: \<open>e\<close> or \<open>E\<close>, an optional sign
  and at least one digit; 0 when \<open>r\<close> does not start with one.
\<close>

definition exponentPart :: "string \<Rightarrow> int" where
  "exponentPart r =
     (case r of
        [] \<Rightarrow> 0
      | c # r1 \<Rightarrow>
          if c = CHR ''e'' \<or> c = CHR ''E'' then
            (case r1 of
               [] \<Rightarrow> 0
             | s # r2 \<Rightarrow>
                 if s = CHR ''+'' then int (digitsVal (takeWhile isDigit r2))
                 else if s = CHR ''-'' then - int (digitsVal (takeWhile isDigit r2))
                 else int (digitsVal (takeWhile isDigit r1)))
          else 0)"

definition parseFloat :: "string \<Rightarrow> jsnumber" where
  "parseFloat s =
     (let t = dropWhile isWhiteSpace s;
          neg = (t \<noteq> [] \<and> hd t = CHR ''-'');
          u = (if t \<noteq> [] \<and> (hd t = CHR ''-'' \<or> hd t = CHR ''+'') then tl t else t)
      in if prefix ''Infinity'' u then (if neg then NegInfinity else Infinity)
         else
           let ip = takeWhile isDigit u;
               r1 = dropWhile isDigit u;
               hasDot = (r1 \<noteq> [] \<and> hd r1 = CHR ''.'');
               fp = (if hasDot then takeWhile isDigit (tl r1) else []);
               r2 = (if hasDot then dropWhile isDigit (tl r1) else r1)
           in if ip = [] \<and> fp = [] then NaN
              else
                let v = (real (digitsVal ip) + real (digitsVal fp) / 10 ^ length fp)
                          * pow10 (exponentPart r2)
                in Num (if neg then - v else v))"

text \<open>
  \<open>new Date(s)\<close> for a string. ECMAScript fixes the reading of the date-only form
  \<open>YYYY-MM-DD\<close>: midnight UTC of that day, and \<open>Invalid Date\<close> when the month is not
  in 01 to 12 or the day not in 01 to 31. Every other string is left to the heuristics
  of the engine, which are a parameter here: \<open>engine s\<close> tells whether the engine at
  hand reads the string \<open>s\<close> as a date. \<open>UTCDate y m d\<close> is the date of a well-formed
  date-only string, \<open>EngineDate s\<close> is the date that the engine reads from another
  string \<open>s\<close>, and \<open>InvalidDate\<close> is \<open>Invalid Date\<close>: the result for a date-only string
  with a month or a day out of range, for a string without a digit (the empty string,
  \<open>n/a\<close>), which no engine reads as a date, and for every string that the engine at
  hand does not recognise. A day from 29 to 31 that the month does not have is left to
  the engine as well (some engines roll it over into the next month).
\<close>

datatype jsdate = InvalidDate | UTCDate nat nat nat | EngineDate string

definition leapYear :: "nat \<Rightarrow> bool" where
  "leapYear y = ((y mod 4 = 0 \<and> y mod 100 \<noteq> 0) \<or> y mod 400 = 0)"

definition daysInMonth :: "nat \<Rightarrow> nat \<Rightarrow> nat" where
  "daysInMonth y m =
     (if m = 2 then (if leapYear y then 29 else 28)
      else if m \<in> set [4, 6, 9, 11] then 30 else 31)"

definition isoDateOnly :: "string \<Rightarrow> (nat \<times> nat \<times> nat) option" where
  "isoDateOnly s =
     (if length s = 10 \<and> list_all isDigit (take 4 s) \<and> s ! 4 = CHR ''-'' \<and>
         list_all isDigit (take 2 (drop 5 s)) \<and> s ! 7 = CHR ''-'' \<and>
         list_all isDigit (drop 8 s)
      then Some (digitsVal (take 4 s), digitsVal (take 2 (drop 5 s)), digitsVal (drop 8 s))
      else None)"

definition newDate :: "(string \<Rightarrow> bool) \<Rightarrow> string \<Rightarrow> jsdate" where
  "newDate engine s =
     (if list_ex isDigit s then
        (case isoDateOnly s of
           Some (y, m, d) \<Rightarrow>
             if 1 \<le> m \<and> m \<le> 12 \<and> 1 \<le> d \<and> d \<le> daysInMonth y m then UTCDate y m d
             else if m < 1 \<or> 12 < m \<or> d < 1 \<or> 31 < d then InvalidDate
             else if engine s then EngineDate s else InvalidDate
         | None \<Rightarrow> if engine s then EngineDate s else InvalidDate)
      else InvalidDate)"


section \<open>The statement parser (src/src/components/CsvImport.vue, lines 8 to 41)\<close>

text \<open>
  The file holds two versions of the component, one after the other. The model follows
  the first (lines 1 to 67), which reads the amounts with \<open>parseFloat\<close> and ends with
  the filter on the amount; the second (lines 68 to 138) is the earlier version, with
  \<open>parseInt\<close> and without the filter.
\<close>

text \<open>
  The object literal that the \<open>map\<close> callback returns. At run time its
  \<open>description\<close> is \<open>undefined\<close> (\<open>None\<close>) when the line has fewer than three fields, and
  its \<open>amount\<close> can be \<open>NaN\<close>.
\<close>

record CsvEntry =
  csv_id :: string
  csv_description :: "string option"
  csv_amount :: jsnumber
  csv_frequency :: string
  csv_taxes :: "TaxElement list"
  csv_type :: string
  csv_date :: jsdate

text \<open>
  \<open>values[i] ? parseFloat(values[i]) : 0\<close>: the 0 is taken for \<open>undefined\<close> and for the
  empty string, the two values of \<open>values[i]\<close> that are false in a condition.
\<close>

definition fieldNumber :: "string option \<Rightarrow> jsnumber" where
  "fieldNumber field =
     (case field of None \<Rightarrow> Num 0 | Some v \<Rightarrow> if v = [] then Num 0 else parseFloat v)"

text \<open>
  The callback of \<open>map\<close> (lines 18 to 35); \<open>uuid\<close> is what \<open>crypto.randomUUID()\<close> returns
  in this call, and \<open>engine\<close> stands for the date heuristics of the engine that runs
  the code. \<open>debit || credit\<close> is \<open>credit\<close> when \<open>debit\<close> is 0 or \<open>NaN\<close>.
  \<open>values[0].split('/')\<close> would throw a \<open>TypeError\<close> on \<open>undefined\<close>.
\<close>

definition parseLine ::
  "(string \<Rightarrow> bool) \<Rightarrow> string \<Rightarrow> string \<Rightarrow> js_error + CsvEntry" where
  "parseLine engine uuid line =
     (let values = split CHR '';'' line;
          debit = fieldNumber (nth_opt values 8);
          credit = fieldNumber (nth_opt values 9);
          type' = (if numTruthy debit then ''expense'' else ''income'');
          amount' = Math_abs (if numTruthy debit then debit else credit)
      in case nth_opt values 0 of
           None \<Rightarrow> Inl TypeError
         | Some v0 \<Rightarrow>
             Inr \<lparr> csv_id = uuid,
                   csv_description = nth_opt values 2,
                   csv_amount = amount',
                   csv_frequency = ''monthly'',
                   csv_taxes = [],
                   csv_type = type',
                   csv_date = newDate engine (join ''-'' (rev (split CHR ''/'' v0))) \<rparr>)"

text \<open>
  \<open>.map(...)\<close> over the lines: the \<open>k\<close>-th call of the callback takes the \<open>k\<close>-th
  identifier; a call that throws ends the whole \<open>map\<close>.
\<close>

fun mapLines ::
  "(string \<Rightarrow> bool) \<Rightarrow> (nat \<Rightarrow> string) \<Rightarrow> nat \<Rightarrow> string list
     \<Rightarrow> js_error + CsvEntry list" where
  "mapLines engine uuid k [] = Inr []"
| "mapLines engine uuid k (line # rest) =
     (case parseLine engine (uuid k) line of
        Inl err \<Rightarrow> Inl err
      | Inr entry \<Rightarrow>
          (case mapLines engine uuid (Suc k) rest of
             Inl err \<Rightarrow> Inl err
           | Inr entries \<Rightarrow> Inr (entry # entries)))"

text \<open>
  \<open>text.split('\n').slice(1).filter(line => line.trim())\<close>.
\<close>

definition dataLines :: "string \<Rightarrow> string list" where
  "dataLines text = filter (\<lambda>line. trim line \<noteq> []) (drop 1 (split CHR 0x0A text))"

text \<open>
  \<open>reader.onload\<close>: the entries passed to \<open>emit('import', entries)\<close>, or the error
  thrown. \<open>uuid k\<close> is the result of the \<open>k\<close>-th call of \<open>crypto.randomUUID()\<close> of the run.
\<close>

definition parseCSV ::
  "(string \<Rightarrow> bool) \<Rightarrow> (nat \<Rightarrow> string) \<Rightarrow> string \<Rightarrow> js_error + CsvEntry list" where
  "parseCSV engine uuid text =
     (case mapLines engine uuid 0 (dataLines text) of
        Inl err \<Rightarrow> Inl err
      | Inr entries \<Rightarrow> Inr (filter (\<lambda>entry. gtZero (csv_amount entry)) entries))"

text \<open>
  What one line adds to the result: the entry of the \<open>map\<close> callback, if the final
  \<open>filter\<close> keeps it.
\<close>

definition lineOutput :: "(string \<Rightarrow> bool) \<Rightarrow> string \<Rightarrow> string \<Rightarrow> CsvEntry list" where
  "lineOutput engine uuid line =
     (case parseLine engine uuid line of
        Inl err \<Rightarrow> []
      | Inr entry \<Rightarrow> filter (\<lambda>entry. gtZero (csv_amount entry)) [entry])"


section \<open>The parsing algorithm in the words of the specification (section 4.4)\<close>

text \<open>
  A missing field is read as the empty string.
\<close>

definition spec_field :: "string list \<Rightarrow> nat \<Rightarrow> string" where
  "spec_field cols i = (case nth_opt cols i of None \<Rightarrow> [] | Some v \<Rightarrow> v)"

text \<open>
  Step 2: parse a column as a number; an empty or unparseable field is 0.
\<close>

definition spec_number :: "string \<Rightarrow> jsnumber" where
  "spec_number field =
     (if field = [] then Num 0
      else (case parseFloat field of NaN \<Rightarrow> Num 0 | n \<Rightarrow> n))"

text \<open>
  Steps 1 to 5 for one line: split on the semicolon; debit is column 8 and credit is
  column 9; a non-zero debit makes an expense of its absolute value, otherwise the entry
  is an income of the absolute value of the credit; the frequency is monthly and there
  are no taxes; the date is read from the tokens of column 0 in reverse order, joined
  by hyphens; the description is column 2.
\<close>

definition spec_entry :: "(string \<Rightarrow> bool) \<Rightarrow> string \<Rightarrow> string \<Rightarrow> CsvEntry" where
  "spec_entry engine uuid line =
     (let cols = split CHR '';'' line;
          debit = spec_number (spec_field cols 8);
          credit = spec_number (spec_field cols 9)
      in \<lparr> csv_id = uuid,
            csv_description = Some (spec_field cols 2),
            csv_amount = (if debit \<noteq> Num 0 then Math_abs debit else Math_abs credit),
            csv_frequency = ''monthly'',
            csv_taxes = [],
            csv_type = (if debit \<noteq> Num 0 then ''expense'' else ''income''),
            csv_date = newDate engine (join ''-'' (rev (split CHR ''/'' (spec_field cols 0)))) \<rparr>)"

text \<open>
  The whole algorithm: the header line is discarded, blank lines are skipped, each
  remaining line gives one entry (the \<open>k\<close>-th with the \<open>k\<close>-th identifier), and the
  entries of amount 0 are dropped (step 6).
\<close>

definition spec_parse ::
  "(string \<Rightarrow> bool) \<Rightarrow> (nat \<Rightarrow> string) \<Rightarrow> string \<Rightarrow> CsvEntry list" where
  "spec_parse engine uuid text =
     filter (\<lambda>entry. csv_amount entry \<noteq> Num 0)
       (map (\<lambda>(k, line). spec_entry engine (uuid k) line)
         (enumerate 0 (filter (\<lambda>line. trim line \<noteq> []) (drop 1 (split CHR 0x0A text)))))"


section \<open>Example data\<close>

definition exampleStore :: "FinancialEntry store" where
  "exampleStore =
     \<lparr> incomeEntries =
         [\<lparr>id' = ''i1'', description = ''salary'', amount = 3000, frequency = ''monthly'',
           taxes = Some []\<rparr>,
          \<lparr>id' = ''i2'', description = ''bonus'', amount = 1200, frequency = ''yearly'',
           taxes = None\<rparr>,
          \<lparr>id' = ''i2'', description = ''twin'', amount = 5, frequency = ''daily'',
           taxes = None\<rparr>],
       expenseEntries =
         [\<lparr>id' = ''x1'', description = ''rent'', amount = 900, frequency = ''monthly'',
           taxes = None\<rparr>] \<rparr>"

text \<open>
  A store as it stands after a structural load: its entries are JSON objects.
\<close>

definition exampleLoaded :: "jsval store" where
  "exampleLoaded =
     \<lparr> incomeEntries = [JObj [(''id'', JStr ''i1''), (''amount'', JNum 3000)]],
       expenseEntries = [JObj [(''id'', JStr ''x1''), (''amount'', JNum 900)]] \<rparr>"


text \<open>
  A statement of two lines: a header and the line of scenario B.
\<close>

definition exampleStatement :: string where
  "exampleStatement =
     ''Date;Ref;Label;A;B;C;D;E;Debit;Credit;'' @ [CHR 0x0A] @
     ''01/03/2024;;Groceries;;;;;;45.50;;''"


section \<open>Folds as sums\<close>

lemma foldl_add_sum_list:
  "foldl (\<lambda>s x. s + f x) a xs = a + sum_list (map f xs)" for a :: real
  by (induction xs arbitrary: a) (simp_all add: add.assoc)

lemma foldl_incomeStep:
  "foldl incomeStep acc xs =
     (fst acc + sum_list (map calculateMonthlyAmount xs),
      snd acc + sum_list (map (\<lambda>e. calculateTaxAmount (calculateMonthlyAmount e) (taxes e)) xs))"
  by (induction xs arbitrary: acc) (simp_all add: incomeStep_def Let_def add.assoc)


section \<open>Monthly normalisation\<close>

text \<open>
  Claim C6. For every amount \<open>a\<close>, the monthly normalisation returns \<open>a * 30\<close> for the
  frequency daily, \<open>a * 4\<close> for weekly, \<open>a * 1\<close> for monthly and \<open>a / 12\<close> for yearly;
  the function applies no rounding of its own (the result is that product or quotient).
\<close>

theorem calculateMonthlyAmount_factors:
  "(frequency e = ''daily'' \<longrightarrow> calculateMonthlyAmount e = amount e * 30) \<and>
   (frequency e = ''weekly'' \<longrightarrow> calculateMonthlyAmount e = amount e * 4) \<and>
   (frequency e = ''monthly'' \<longrightarrow> calculateMonthlyAmount e = amount e * 1) \<and>
   (frequency e = ''yearly'' \<longrightarrow> calculateMonthlyAmount e = amount e / 12)"
  by (simp add: calculateMonthlyAmount_def)

theorem calculateMonthlyAmount_factors_witness:
  "calculateMonthlyAmount
     \<lparr>id' = ''a'', description = ''pay'', amount = 7, frequency = ''daily'', taxes = None\<rparr> = 210 \<and>
   calculateMonthlyAmount
     \<lparr>id' = ''b'', description = ''pay'', amount = 7, frequency = ''weekly'', taxes = None\<rparr> = 28 \<and>
   calculateMonthlyAmount
     \<lparr>id' = ''c'', description = ''pay'', amount = 7, frequency = ''monthly'', taxes = None\<rparr> = 7 \<and>
   calculateMonthlyAmount
     \<lparr>id' = ''d'', description = ''pay'', amount = 6, frequency = ''yearly'', taxes = None\<rparr> = 1 / 2"
  using
    calculateMonthlyAmount_factors
      [of "\<lparr>id' = ''a'', description = ''pay'', amount = 7, frequency = ''daily'', taxes = None\<rparr>"]
    calculateMonthlyAmount_factors
      [of "\<lparr>id' = ''b'', description = ''pay'', amount = 7, frequency = ''weekly'', taxes = None\<rparr>"]
    calculateMonthlyAmount_factors
      [of "\<lparr>id' = ''c'', description = ''pay'', amount = 7, frequency = ''monthly'', taxes = None\<rparr>"]
    calculateMonthlyAmount_factors
      [of "\<lparr>id' = ''d'', description = ''pay'', amount = 6, frequency = ''yearly'', taxes = None\<rparr>"]
  by simp

text \<open>
  Claim C2, as stated: for a frequency outside daily, weekly, monthly and yearly the
  normalisation fails with \<open>InvalidFrequency\<close> and never falls back to a conversion
  factor. The \<open>switch\<close> has a \<open>default\<close> branch and no \<open>throw\<close>: for the frequency
  \<open>hourly\<close> and the amount 7 the function returns 7, the amount times the factor of
  monthly, which is also its result for the same entry with the frequency monthly.
\<close>

theorem calculateMonthlyAmount_unknown_counterexample:
  "calculateMonthlyAmount
     \<lparr>id' = ''e1'', description = ''rent'', amount = 7, frequency = ''hourly'', taxes = None\<rparr>
   = 7 * 1 \<and>
   calculateMonthlyAmount
     \<lparr>id' = ''e1'', description = ''rent'', amount = 7, frequency = ''hourly'', taxes = None\<rparr>
   = calculateMonthlyAmount
     \<lparr>id' = ''e1'', description = ''rent'', amount = 7, frequency = ''monthly'', taxes = None\<rparr>"
  by (simp add: calculateMonthlyAmount_def)

text \<open>
  Claim C2, amended: for every amount and every frequency outside daily, weekly,
  monthly and yearly the normalisation returns the amount unchanged, as it does for
  monthly; it raises no error.
\<close>

theorem calculateMonthlyAmount_default:
  "frequency e \<notin> {''daily'', ''weekly'', ''monthly'', ''yearly''}
     \<Longrightarrow> calculateMonthlyAmount e = amount e"
  by (simp add: calculateMonthlyAmount_def)

theorem calculateMonthlyAmount_default_witness:
  "''fortnightly'' \<notin> {''daily'', ''weekly'', ''monthly'', ''yearly''} \<and>
   calculateMonthlyAmount
     \<lparr>id' = ''e2'', description = ''gym'', amount = 25, frequency = ''fortnightly'',
      taxes = None\<rparr> = 25"
  using calculateMonthlyAmount_default
    [of "\<lparr>id' = ''e2'', description = ''gym'', amount = 25, frequency = ''fortnightly'',
          taxes = None\<rparr>"]
  by simp


section \<open>Taxes\<close>

text \<open>
  Claim C7. For every monthly amount \<open>m\<close> and every sequence of tax elements,
  \<open>calculateTaxAmount m taxes\<close> is the sum over the elements of
  \<open>m * percentage / 100\<close>, each percentage applied to the same base \<open>m\<close>; the result is
  0 for the empty list and for an absent list.
\<close>

theorem calculateTaxAmount_sum:
  "calculateTaxAmount m (Some ts) = (\<Sum>t\<leftarrow>ts. m * percentage t / 100) \<and>
   calculateTaxAmount m (Some []) = 0 \<and>
   calculateTaxAmount m None = 0"
  by (cases ts) (simp_all add: calculateTaxAmount_def foldl_add_sum_list)

theorem calculateTaxAmount_sum_witness:
  "calculateTaxAmount 1000
     (Some [\<lparr>tax_id = ''t1'', tax_name = ''income tax'', percentage = 10\<rparr>,
            \<lparr>tax_id = ''t2'', tax_name = ''social'', percentage = 20\<rparr>]) = 300 \<and>
   calculateTaxAmount 1000 (Some []) = 0 \<and>
   calculateTaxAmount 1000 None = 0"
  using calculateTaxAmount_sum
    [of 1000 "[\<lparr>tax_id = ''t1'', tax_name = ''income tax'', percentage = 10\<rparr>,
               \<lparr>tax_id = ''t2'', tax_name = ''social'', percentage = 20\<rparr>]"]
  by simp


section \<open>The summary\<close>

lemma summary_general:
  "totalIncome (summary st) = (\<Sum>e\<leftarrow>incomeEntries st. calculateMonthlyAmount e)"
  "totalTaxes (summary st) =
     (\<Sum>e\<leftarrow>incomeEntries st. calculateTaxAmount (calculateMonthlyAmount e) (taxes e))"
  "totalExpenses (summary st) = (\<Sum>e\<leftarrow>expenseEntries st. calculateMonthlyAmount e)"
  "netIncome (summary st) = totalIncome (summary st) - totalTaxes (summary st)"
  "balance (summary st) = netIncome (summary st) - totalExpenses (summary st)"
  by (simp_all add: summary_def Let_def foldl_incomeStep foldl_add_sum_list)

lemma summary_scenario_A:
  "summary
     \<lparr> incomeEntries =
         [\<lparr>id' = i1, description = d1, amount = 1000, frequency = ''monthly'',
           taxes = Some [\<lparr>tax_id = t1, tax_name = n1, percentage = 20\<rparr>]\<rparr>],
       expenseEntries =
         [\<lparr>id' = i2, description = d2, amount = 100, frequency = ''weekly'', taxes = None\<rparr>] \<rparr>
   = \<lparr> totalIncome = 1000, totalExpenses = 400, totalTaxes = 200, netIncome = 800,
       balance = 400 \<rparr>"
  by (simp add: summary_def Let_def incomeStep_def
      calculateMonthlyAmount_def calculateTaxAmount_def)

text \<open>
  Claim C4. For every pair of entry lists the summary has \<open>totalIncome\<close> the sum of the
  normalised monthly amounts of the income entries, \<open>totalTaxes\<close> the sum of their tax
  amounts, \<open>totalExpenses\<close> the sum of the normalised monthly amounts of the expense
  entries, \<open>netIncome = totalIncome - totalTaxes\<close> and
  \<open>balance = netIncome - totalExpenses = totalIncome - totalTaxes - totalExpenses\<close>.
  Scenario A: one monthly income of 1000 taxed at 20 percent and one weekly expense of
  100 give 1000, 200, 800, 400 and the balance 400.
\<close>

theorem summary_totals:
  "totalIncome (summary st) = (\<Sum>e\<leftarrow>incomeEntries st. calculateMonthlyAmount e) \<and>
   totalTaxes (summary st) =
     (\<Sum>e\<leftarrow>incomeEntries st. calculateTaxAmount (calculateMonthlyAmount e) (taxes e)) \<and>
   totalExpenses (summary st) = (\<Sum>e\<leftarrow>expenseEntries st. calculateMonthlyAmount e) \<and>
   netIncome (summary st) = totalIncome (summary st) - totalTaxes (summary st) \<and>
   balance (summary st) = netIncome (summary st) - totalExpenses (summary st) \<and>
   balance (summary st) =
     totalIncome (summary st) - totalTaxes (summary st) - totalExpenses (summary st) \<and>
   summary
     \<lparr> incomeEntries =
         [\<lparr>id' = i1, description = d1, amount = 1000, frequency = ''monthly'',
           taxes = Some [\<lparr>tax_id = t1, tax_name = n1, percentage = 20\<rparr>]\<rparr>],
       expenseEntries =
         [\<lparr>id' = i2, description = d2, amount = 100, frequency = ''weekly'', taxes = None\<rparr>] \<rparr>
   = \<lparr> totalIncome = 1000, totalExpenses = 400, totalTaxes = 200, netIncome = 800,
       balance = 400 \<rparr>"
  using summary_general [of st] summary_scenario_A [of i1 d1 t1 n1 i2 d2]
  by (intro conjI) simp_all


section \<open>Frame of the store operations\<close>

lemma assignFound_no_match: "\<forall>x\<in>set xs. \<not> p x \<Longrightarrow> assignFound p f xs = xs"
  by (induction xs) simp_all

lemma assignFound_first_match:
  "\<forall>x\<in>set pre. \<not> p x \<Longrightarrow> p e \<Longrightarrow> assignFound p f (pre @ e # post) = pre @ f e # post"
  by (induction pre) simp_all

lemma income_updates_absent:
  assumes "\<forall>x\<in>set (incomeEntries st). id' x \<noteq> i"
  shows "updateIncomeTaxes st i ts = st" "updateIncomeFrequency st i fr = st"
    "updateIncomeDescription st i d = st" "updateIncomeAmount st i a = st"
  using assms
  by (simp_all add: updateIncomeTaxes_def updateIncomeFrequency_def
      updateIncomeDescription_def updateIncomeAmount_def assignFound_no_match)

lemma expense_updates_absent:
  assumes "\<forall>x\<in>set (expenseEntries st). id' x \<noteq> i"
  shows "updateExpenseFrequency st i fr = st"
    "updateExpenseDescription st i d = st" "updateExpenseAmount st i a = st"
  using assms
  by (simp_all add: updateExpenseFrequency_def
      updateExpenseDescription_def updateExpenseAmount_def assignFound_no_match)

lemma income_updates_found:
  assumes "incomeEntries st = pre @ e # post" "\<forall>x\<in>set pre. id' x \<noteq> i" "id' e = i"
  shows "updateIncomeTaxes st i ts = st\<lparr>incomeEntries := pre @ e\<lparr>taxes := Some ts\<rparr> # post\<rparr>"
    "updateIncomeFrequency st i fr = st\<lparr>incomeEntries := pre @ e\<lparr>frequency := fr\<rparr> # post\<rparr>"
    "updateIncomeDescription st i d =
       st\<lparr>incomeEntries := pre @ e\<lparr>description := d\<rparr> # post\<rparr>"
    "updateIncomeAmount st i a = st\<lparr>incomeEntries := pre @ e\<lparr>amount := a\<rparr> # post\<rparr>"
  using assms
  by (simp_all add: updateIncomeTaxes_def updateIncomeFrequency_def
      updateIncomeDescription_def updateIncomeAmount_def assignFound_first_match)

lemma expense_updates_found:
  assumes "expenseEntries st = pre @ e # post" "\<forall>x\<in>set pre. id' x \<noteq> i" "id' e = i"
  shows
    "updateExpenseFrequency st i fr =
       st\<lparr>expenseEntries := pre @ e\<lparr>frequency := fr\<rparr> # post\<rparr>"
    "updateExpenseDescription st i d =
       st\<lparr>expenseEntries := pre @ e\<lparr>description := d\<rparr> # post\<rparr>"
    "updateExpenseAmount st i a = st\<lparr>expenseEntries := pre @ e\<lparr>amount := a\<rparr> # post\<rparr>"
  using assms
  by (simp_all add: updateExpenseFrequency_def
      updateExpenseDescription_def updateExpenseAmount_def assignFound_first_match)

lemma remove_frame:
  "incomeEntries (removeIncome st i) = filter (\<lambda>x. id' x \<noteq> i) (incomeEntries st)"
  "expenseEntries (removeIncome st i) = expenseEntries st"
  "expenseEntries (removeExpense st i) = filter (\<lambda>x. id' x \<noteq> i) (expenseEntries st)"
  "incomeEntries (removeExpense st i) = incomeEntries st"
  "subseq (incomeEntries (removeIncome st i)) (incomeEntries st)"
  "subseq (expenseEntries (removeExpense st i)) (expenseEntries st)"
  by (simp_all add: removeIncome_def removeExpense_def)

text \<open>
  Claim C10. For every state of the two lists and every id: an update (of the taxes,
  the frequency, the description or the amount, of an income or an expense) with an id
  that no entry of its list has leaves the state unchanged; when an entry has the id,
  the update changes the named field of the first such entry and nothing else (\<open>pre\<close>
  are the entries before it, \<open>post\<close> those after it); a removal keeps the entries whose
  id differs from the given one, in their order, and leaves the other list unchanged.
\<close>

theorem store_operations_frame:
  "((\<forall>x\<in>set (incomeEntries st). id' x \<noteq> i) \<longrightarrow>
      updateIncomeTaxes st i ts = st \<and> updateIncomeFrequency st i fr = st \<and>
      updateIncomeDescription st i d = st \<and> updateIncomeAmount st i a = st) \<and>
   ((\<forall>x\<in>set (expenseEntries st). id' x \<noteq> i) \<longrightarrow>
      updateExpenseFrequency st i fr = st \<and>
      updateExpenseDescription st i d = st \<and> updateExpenseAmount st i a = st) \<and>
   (incomeEntries st = pre @ e # post \<and> (\<forall>x\<in>set pre. id' x \<noteq> i) \<and> id' e = i \<longrightarrow>
      updateIncomeTaxes st i ts = st\<lparr>incomeEntries := pre @ e\<lparr>taxes := Some ts\<rparr> # post\<rparr> \<and>
      updateIncomeFrequency st i fr = st\<lparr>incomeEntries := pre @ e\<lparr>frequency := fr\<rparr> # post\<rparr> \<and>
      updateIncomeDescription st i d =
        st\<lparr>incomeEntries := pre @ e\<lparr>description := d\<rparr> # post\<rparr> \<and>
      updateIncomeAmount st i a = st\<lparr>incomeEntries := pre @ e\<lparr>amount := a\<rparr> # post\<rparr>) \<and>
   (expenseEntries st = pre @ e # post \<and> (\<forall>x\<in>set pre. id' x \<noteq> i) \<and> id' e = i \<longrightarrow>
      updateExpenseFrequency st i fr =
        st\<lparr>expenseEntries := pre @ e\<lparr>frequency := fr\<rparr> # post\<rparr> \<and>
      updateExpenseDescription st i d =
        st\<lparr>expenseEntries := pre @ e\<lparr>description := d\<rparr> # post\<rparr> \<and>
      updateExpenseAmount st i a = st\<lparr>expenseEntries := pre @ e\<lparr>amount := a\<rparr> # post\<rparr>) \<and>
   incomeEntries (removeIncome st i) = filter (\<lambda>x. id' x \<noteq> i) (incomeEntries st) \<and>
   expenseEntries (removeIncome st i) = expenseEntries st \<and>
   expenseEntries (removeExpense st i) = filter (\<lambda>x. id' x \<noteq> i) (expenseEntries st) \<and>
   incomeEntries (removeExpense st i) = incomeEntries st \<and>
   subseq (incomeEntries (removeIncome st i)) (incomeEntries st) \<and>
   subseq (expenseEntries (removeExpense st i)) (expenseEntries st)"
proof -
  have A: "(\<forall>x\<in>set (incomeEntries st). id' x \<noteq> i) \<longrightarrow>
      updateIncomeTaxes st i ts = st \<and> updateIncomeFrequency st i fr = st \<and>
      updateIncomeDescription st i d = st \<and> updateIncomeAmount st i a = st"
    by (simp add: income_updates_absent)
  have B: "(\<forall>x\<in>set (expenseEntries st). id' x \<noteq> i) \<longrightarrow>
      updateExpenseFrequency st i fr = st \<and>
      updateExpenseDescription st i d = st \<and> updateExpenseAmount st i a = st"
    by (simp add: expense_updates_absent)
  have C: "incomeEntries st = pre @ e # post \<and> (\<forall>x\<in>set pre. id' x \<noteq> i) \<and> id' e = i \<longrightarrow>
      updateIncomeTaxes st i ts = st\<lparr>incomeEntries := pre @ e\<lparr>taxes := Some ts\<rparr> # post\<rparr> \<and>
      updateIncomeFrequency st i fr = st\<lparr>incomeEntries := pre @ e\<lparr>frequency := fr\<rparr> # post\<rparr> \<and>
      updateIncomeDescription st i d =
        st\<lparr>incomeEntries := pre @ e\<lparr>description := d\<rparr> # post\<rparr> \<and>
      updateIncomeAmount st i a = st\<lparr>incomeEntries := pre @ e\<lparr>amount := a\<rparr> # post\<rparr>"
    using income_updates_found [of st pre e post i] by blast
  have D: "expenseEntries st = pre @ e # post \<and> (\<forall>x\<in>set pre. id' x \<noteq> i) \<and> id' e = i \<longrightarrow>
      updateExpenseFrequency st i fr =
        st\<lparr>expenseEntries := pre @ e\<lparr>frequency := fr\<rparr> # post\<rparr> \<and>
      updateExpenseDescription st i d =
        st\<lparr>expenseEntries := pre @ e\<lparr>description := d\<rparr> # post\<rparr> \<and>
      updateExpenseAmount st i a = st\<lparr>expenseEntries := pre @ e\<lparr>amount := a\<rparr> # post\<rparr>"
    using expense_updates_found [of st pre e post i] by blast
  show ?thesis
    by (intro conjI A B C D remove_frame)
qed

theorem store_operations_frame_witness:
  "updateIncomeAmount exampleStore ''i2'' 7 =
     \<lparr> incomeEntries =
         [\<lparr>id' = ''i1'', description = ''salary'', amount = 3000, frequency = ''monthly'',
           taxes = Some []\<rparr>,
          \<lparr>id' = ''i2'', description = ''bonus'', amount = 7, frequency = ''yearly'',
           taxes = None\<rparr>,
          \<lparr>id' = ''i2'', description = ''twin'', amount = 5, frequency = ''daily'',
           taxes = None\<rparr>],
       expenseEntries =
         [\<lparr>id' = ''x1'', description = ''rent'', amount = 900, frequency = ''monthly'',
           taxes = None\<rparr>] \<rparr> \<and>
   updateExpenseDescription exampleStore ''x1'' ''flat'' =
     \<lparr> incomeEntries = incomeEntries exampleStore,
       expenseEntries =
         [\<lparr>id' = ''x1'', description = ''flat'', amount = 900, frequency = ''monthly'',
           taxes = None\<rparr>] \<rparr> \<and>
   updateIncomeTaxes exampleStore ''x1'' [] = exampleStore \<and>
   updateExpenseAmount exampleStore ''i2'' 7 = exampleStore \<and>
   incomeEntries (removeIncome exampleStore ''i2'') =
     [\<lparr>id' = ''i1'', description = ''salary'', amount = 3000, frequency = ''monthly'',
       taxes = Some []\<rparr>] \<and>
   expenseEntries (removeIncome exampleStore ''i2'') = expenseEntries exampleStore"
  using
    store_operations_frame [where st = exampleStore and i = "''i2''" and a = 7 and
      pre = "[\<lparr>id' = ''i1'', description = ''salary'', amount = 3000,
               frequency = ''monthly'', taxes = Some []\<rparr>]"
      and e = "\<lparr>id' = ''i2'', description = ''bonus'', amount = 1200,
               frequency = ''yearly'', taxes = None\<rparr>"
      and post = "[\<lparr>id' = ''i2'', description = ''twin'', amount = 5,
               frequency = ''daily'', taxes = None\<rparr>]"]
    store_operations_frame [where st = exampleStore and i = "''x1''" and d = "''flat''"
      and ts = "[]" and pre = "[]"
      and e = "\<lparr>id' = ''x1'', description = ''rent'', amount = 900,
               frequency = ''monthly'', taxes = None\<rparr>"
      and post = "[]"]
  by (simp add: exampleStore_def)


section \<open>Structural import and restore\<close>

lemma loadDocument_object:
  "loadDocument st (JObj props) =
     (\<lparr> incomeEntries =
          (case map_of props ''income'' of Some (JArr xs) \<Rightarrow> xs | _ \<Rightarrow> incomeEntries st),
        expenseEntries =
          (case map_of props ''expenses'' of Some (JArr ys) \<Rightarrow> ys | _ \<Rightarrow> expenseEntries st) \<rparr>,
      None)"
  by (simp add: loadDocument_def Let_def split: option.splits jsval.splits)

lemma loadDocument_other:
  "loadDocument st JNull = (st, Some TypeError)"
  "loadDocument st (JBool b) = (st, None)"
  "loadDocument st (JNum n) = (st, None)"
  "loadDocument st (JStr s) = (st, None)"
  "loadDocument st (JArr xs) = (st, None)"
  by (simp_all add: loadDocument_def)

lemma importData_cases:
  "importData st (Inr (JObj props)) =
     (\<lparr> incomeEntries =
          (case map_of props ''income'' of Some (JArr xs) \<Rightarrow> xs | _ \<Rightarrow> incomeEntries st),
        expenseEntries =
          (case map_of props ''expenses'' of Some (JArr ys) \<Rightarrow> ys | _ \<Rightarrow> expenseEntries st) \<rparr>,
      [])"
  "importData st (Inr (JBool b)) = (st, [])"
  "importData st (Inr (JNum n)) = (st, [])"
  "importData st (Inr (JStr s)) = (st, [])"
  "importData st (Inr (JArr zs)) = (st, [])"
  "importData st (Inr JNull) =
     (st, [ConsoleError ''Error importing data:'',
           Alert ''Error importing data. Please check the file format.''])"
  "importData st (Inl err) =
     (st, [ConsoleError ''Error importing data:'',
           Alert ''Error importing data. Please check the file format.''])"
  by (simp_all add: importData_def loadDocument_object loadDocument_other)

lemma loadFromLocalStorage_cases:
  "loadFromLocalStorage st (Some (Inr (JObj props))) =
     (\<lparr> incomeEntries =
          (case map_of props ''income'' of Some (JArr xs) \<Rightarrow> xs | _ \<Rightarrow> incomeEntries st),
        expenseEntries =
          (case map_of props ''expenses'' of Some (JArr ys) \<Rightarrow> ys | _ \<Rightarrow> expenseEntries st) \<rparr>,
      [])"
  "loadFromLocalStorage st (Some (Inr (JBool b))) = (st, [])"
  "loadFromLocalStorage st (Some (Inr (JNum n))) = (st, [])"
  "loadFromLocalStorage st (Some (Inr (JStr s))) = (st, [])"
  "loadFromLocalStorage st (Some (Inr (JArr zs))) = (st, [])"
  "loadFromLocalStorage st (Some (Inr JNull)) =
     (st, [ConsoleError ''Error loading data from localStorage:''])"
  "loadFromLocalStorage st (Some (Inl err)) =
     (st, [ConsoleError ''Error loading data from localStorage:''])"
  "loadFromLocalStorage st None = (st, [])"
  by (simp_all add: loadFromLocalStorage_def loadDocument_object loadDocument_other)

text \<open>
  Claim C1, as stated: a payload that is not an object with both \<open>income\<close> and
  \<open>expenses\<close> being sequences is rejected as a whole with \<open>MalformedImportDocument\<close>, and
  neither list is overwritten. The two keys are checked and assigned one after the
  other: for a document whose \<open>income\<close> is a sequence and whose \<open>expenses\<close> is the string
  \<open>not-an-array\<close>, the import replaces the income list, keeps the expense list and
  reports nothing.
\<close>

theorem importData_partial_counterexample:
  "importData exampleLoaded
     (Inr (JObj [(''income'', JArr [JObj [(''id'', JStr ''i9''), (''amount'', JNum 1)]]),
                 (''expenses'', JStr ''not-an-array'')]))
   = (\<lparr> incomeEntries = [JObj [(''id'', JStr ''i9''), (''amount'', JNum 1)]],
        expenseEntries = [JObj [(''id'', JStr ''x1''), (''amount'', JNum 900)]] \<rparr>,
      []) \<and>
   incomeEntries exampleLoaded \<noteq> [JObj [(''id'', JStr ''i9''), (''amount'', JNum 1)]]"
  by (simp add: importData_def loadDocument_def exampleLoaded_def)

text \<open>
  Claim C1, amended. The import and the restore treat the two keys independently: the
  income list is replaced by \<open>income\<close> when that is a sequence and is left unchanged
  otherwise, and likewise the expense list with \<open>expenses\<close>; a missing key or a value
  that is no sequence raises no error, and a document that is a boolean, a number, a
  string or an array changes nothing. An error is reported (logged, and alerted by the
  import) only when \<open>JSON.parse\<close> throws or the document is \<open>null\<close>, and then both lists
  are unchanged. The restore does nothing when nothing is saved. In particular the
  document with the one key \<open>income\<close> holding the string \<open>not-an-array\<close> leaves all
  entries unchanged, and no error is reported for it.
\<close>

theorem structural_load_per_key:
  "importData st (Inr (JObj props)) =
     (\<lparr> incomeEntries =
          (case map_of props ''income'' of Some (JArr xs) \<Rightarrow> xs | _ \<Rightarrow> incomeEntries st),
        expenseEntries =
          (case map_of props ''expenses'' of Some (JArr ys) \<Rightarrow> ys | _ \<Rightarrow> expenseEntries st) \<rparr>,
      []) \<and>
   importData st (Inr (JBool b)) = (st, []) \<and>
   importData st (Inr (JNum n)) = (st, []) \<and>
   importData st (Inr (JStr s)) = (st, []) \<and>
   importData st (Inr (JArr zs)) = (st, []) \<and>
   importData st (Inr JNull) =
     (st, [ConsoleError ''Error importing data:'',
           Alert ''Error importing data. Please check the file format.'']) \<and>
   importData st (Inl err) =
     (st, [ConsoleError ''Error importing data:'',
           Alert ''Error importing data. Please check the file format.'']) \<and>
   importData st (Inr (JObj [(''income'', JStr ''not-an-array'')])) = (st, []) \<and>
   loadFromLocalStorage st (Some (Inr (JObj props))) =
     (\<lparr> incomeEntries =
          (case map_of props ''income'' of Some (JArr xs) \<Rightarrow> xs | _ \<Rightarrow> incomeEntries st),
        expenseEntries =
          (case map_of props ''expenses'' of Some (JArr ys) \<Rightarrow> ys | _ \<Rightarrow> expenseEntries st) \<rparr>,
      []) \<and>
   loadFromLocalStorage st (Some (Inr (JBool b))) = (st, []) \<and>
   loadFromLocalStorage st (Some (Inr (JNum n))) = (st, []) \<and>
   loadFromLocalStorage st (Some (Inr (JStr s))) = (st, []) \<and>
   loadFromLocalStorage st (Some (Inr (JArr zs))) = (st, []) \<and>
   loadFromLocalStorage st (Some (Inr JNull)) =
     (st, [ConsoleError ''Error loading data from localStorage:'']) \<and>
   loadFromLocalStorage st (Some (Inl err)) =
     (st, [ConsoleError ''Error loading data from localStorage:'']) \<and>
   loadFromLocalStorage st None = (st, []) \<and>
   loadFromLocalStorage st (Some (Inr (JObj [(''income'', JStr ''not-an-array'')]))) = (st, [])"
proof -
  have scenario: "importData st (Inr (JObj [(''income'', JStr ''not-an-array'')])) = (st, [])"
    by (simp add: importData_cases)
  have restore:
    "loadFromLocalStorage st (Some (Inr (JObj [(''income'', JStr ''not-an-array'')]))) = (st, [])"
    by (simp add: loadFromLocalStorage_cases)
  show ?thesis
    by (intro conjI importData_cases loadFromLocalStorage_cases scenario restore)
qed

theorem structural_load_per_key_witness:
  "importData exampleLoaded (Inr (JObj [(''income'', JStr ''not-an-array'')]))
     = (exampleLoaded, []) \<and>
   importData exampleLoaded (Inr (JObj [(''expenses'', JArr [JStr ''e'']), (''income'', JNum 3)]))
     = (\<lparr> incomeEntries = incomeEntries exampleLoaded, expenseEntries = [JStr ''e''] \<rparr>, []) \<and>
   loadFromLocalStorage exampleLoaded (Some (Inr (JObj [(''income'', JStr ''not-an-array'')])))
     = (exampleLoaded, []) \<and>
   loadFromLocalStorage exampleLoaded (Some (Inl SyntaxError))
     = (exampleLoaded, [ConsoleError ''Error loading data from localStorage:''])"
  using
    structural_load_per_key [where st = exampleLoaded
      and props = "[(''expenses'', JArr [JStr ''e'']), (''income'', JNum 3)]"
      and err = SyntaxError]
  by simp


section \<open>Splitting, trimming and joining\<close>

lemma split_not_Nil: "split sep s \<noteq> []"
  by (induction s) (auto split: list.splits)

lemma split_append_sep: "split sep (a @ sep # b) = split sep a @ split sep b"
proof (induction a)
  case Nil
  then show ?case by simp
next
  case (Cons c a)
  then show ?case
    using split_not_Nil [of sep a] by (auto split: list.splits)
qed

lemma split_replicate_sep: "split sep (l @ replicate n sep) = split sep l @ replicate n []"
proof (induction n)
  case 0
  then show ?case by simp
next
  case (Suc n)
  have "l @ replicate (Suc n) sep = (l @ replicate n sep) @ sep # []"
    by (simp add: replicate_append_same)
  then show ?case
    using Suc split_append_sep [of sep "l @ replicate n sep" "[]"]
    by (simp add: replicate_append_same)
qed

lemma split_pieces_subset: "x \<in> set (split sep s) \<Longrightarrow> set x \<subseteq> set s"
proof (induction s arbitrary: x)
  case Nil
  then show ?case by simp
next
  case (Cons c s)
  show ?case
  proof (cases "c = sep")
    case True
    with Cons show ?thesis by auto
  next
    case False
    obtain w ws where sp: "split sep s = w # ws"
      using split_not_Nil [of sep s] by (cases "split sep s") auto
    with False Cons.prems have "x = c # w \<or> x \<in> set ws" by simp
    then show ?thesis
      using Cons.IH [of w] Cons.IH [of x] sp by auto
  qed
qed

lemma join_chars: "set (join sep xs) \<subseteq> set sep \<union> \<Union> (set ` set xs)"
  by (induction sep xs rule: join.induct) auto

lemma nth_opt_0_split: "nth_opt (split sep s) 0 = Some (hd (split sep s))"
  using split_not_Nil [of sep s] by (cases "split sep s") (simp_all add: nth_opt_def)

lemma spec_field_0: "spec_field (split sep s) 0 = hd (split sep s)"
  using split_not_Nil [of sep s] by (cases "split sep s") (simp_all add: spec_field_def nth_opt_def)

lemma trim_empty_iff: "trim s = [] \<longleftrightarrow> (\<forall>c\<in>set s. isWhiteSpace c)"
proof -
  have "trim s = [] \<longleftrightarrow> dropWhile isWhiteSpace (rev (dropWhile isWhiteSpace s)) = []"
    by (simp add: trim_def)
  also have "\<dots> \<longleftrightarrow> (\<forall>c\<in>set (dropWhile isWhiteSpace s). isWhiteSpace c)"
    by (simp add: dropWhile_eq_Nil_conv)
  also have "\<dots> \<longleftrightarrow> (\<forall>c\<in>set s. isWhiteSpace c)"
  proof
    assume a: "\<forall>c\<in>set (dropWhile isWhiteSpace s). isWhiteSpace c"
    show "\<forall>c\<in>set s. isWhiteSpace c"
    proof (cases "dropWhile isWhiteSpace s")
      case Nil
      then show ?thesis by (simp add: dropWhile_eq_Nil_conv)
    next
      case (Cons x xs)
      then have "\<not> isWhiteSpace x" using hd_dropWhile [of isWhiteSpace s] by simp
      with a Cons show ?thesis by simp
    qed
  next
    assume "\<forall>c\<in>set s. isWhiteSpace c"
    then show "\<forall>c\<in>set (dropWhile isWhiteSpace s). isWhiteSpace c"
      using set_dropWhileD by metis
  qed
  finally show ?thesis .
qed

lemma blank_pieces:
  assumes "trim b = []"
  shows "filter (\<lambda>line. trim line \<noteq> []) (split sep b) = []"
proof -
  have "\<forall>x\<in>set (split sep b). trim x = []"
    using assms split_pieces_subset [of _ sep b] by (auto simp add: trim_empty_iff)
  then show ?thesis by (simp add: filter_empty_conv)
qed


section \<open>The parser line by line\<close>

lemma parseLine_returns: "\<exists>entry. parseLine engine uuid line = Inr entry"
  by (simp add: parseLine_def Let_def nth_opt_0_split)

lemma parseLine_fieldNumber:
  "parseLine engine uuid line =
     (let values = split CHR '';'' line;
          debit = fieldNumber (nth_opt values 8);
          credit = fieldNumber (nth_opt values 9)
      in Inr \<lparr> csv_id = uuid,
               csv_description = nth_opt values 2,
               csv_amount = Math_abs (if numTruthy debit then debit else credit),
               csv_frequency = ''monthly'',
               csv_taxes = [],
               csv_type = (if numTruthy debit then ''expense'' else ''income''),
               csv_date = newDate engine (join ''-'' (rev (split CHR ''/'' (hd values)))) \<rparr>)"
  by (simp add: parseLine_def Let_def nth_opt_0_split)

lemma lineOutput_parseLine:
  "parseLine engine uuid line = Inr entry \<Longrightarrow> lineOutput engine uuid line = filter (\<lambda>e. gtZero (csv_amount e)) [entry]"
  by (simp add: lineOutput_def)

lemma lineOutput_length: "length (lineOutput engine uuid l) \<le> 1"
  by (simp add: lineOutput_def split: sum.splits)

lemma lineOutput_positive: "e \<in> set (lineOutput engine uuid l) \<Longrightarrow> gtZero (csv_amount e)"
  by (auto simp add: lineOutput_def split: sum.splits if_splits)

lemma lineOutput_zero:
  "parseLine engine uuid l = Inr e \<Longrightarrow> csv_amount e = Num 0 \<Longrightarrow> lineOutput engine uuid l = []"
  by (simp add: lineOutput_def)

lemma mapLines_concat:
  "\<exists>entries. mapLines engine uuid k ls = Inr entries \<and>
     filter (\<lambda>e. gtZero (csv_amount e)) entries =
       concat (map (\<lambda>(j, l). lineOutput engine (uuid j) l) (enumerate k ls))"
proof (induction ls arbitrary: k)
  case Nil
  then show ?case by simp
next
  case (Cons l ls)
  obtain entry where e: "parseLine engine (uuid k) l = Inr entry"
    using parseLine_returns by blast
  obtain entries where es: "mapLines engine uuid (Suc k) ls = Inr entries"
    and f: "filter (\<lambda>e. gtZero (csv_amount e)) entries =
       concat (map (\<lambda>(j, l). lineOutput engine (uuid j) l) (enumerate (Suc k) ls))"
    using Cons.IH by blast
  show ?case
    using e es f by (simp add: lineOutput_def)
qed

lemma parseCSV_concat:
  "parseCSV engine uuid content =
     Inr (concat (map (\<lambda>(k, l). lineOutput engine (uuid k) l) (enumerate 0 (dataLines content))))"
proof -
  obtain entries where "mapLines engine uuid 0 (dataLines content) = Inr entries"
    and "filter (\<lambda>e. gtZero (csv_amount e)) entries =
       concat (map (\<lambda>(j, l). lineOutput engine (uuid j) l) (enumerate 0 (dataLines content)))"
    using mapLines_concat by blast
  then show ?thesis by (simp add: parseCSV_def)
qed

lemma parseCSV_positive:
  assumes "parseCSV engine uuid content = Inr es" "e \<in> set es"
  shows "gtZero (csv_amount e)"
  using assms by (auto simp add: parseCSV_def split: sum.splits)


section \<open>The parser and the algorithm of the specification\<close>

lemma spec_number_fieldNumber:
  "spec_number (spec_field cols i) =
     (case fieldNumber (nth_opt cols i) of NaN \<Rightarrow> Num 0 | n \<Rightarrow> n)"
  by (simp add: spec_number_def spec_field_def fieldNumber_def split: option.splits)

lemma numTruthy_iff: "numTruthy d \<longleftrightarrow> (case d of NaN \<Rightarrow> Num 0 | n \<Rightarrow> n) \<noteq> Num 0"
  by (cases d) simp_all

lemma gtZero_abs_iff: "gtZero (Math_abs x) \<longleftrightarrow> Math_abs (case x of NaN \<Rightarrow> Num 0 | n \<Rightarrow> n) \<noteq> Num 0"
  by (cases x) simp_all

lemma abs_kept: "gtZero (Math_abs x) \<Longrightarrow> Math_abs (case x of NaN \<Rightarrow> Num 0 | n \<Rightarrow> n) = Math_abs x"
  by (cases x) simp_all

lemma Math_abs_zeroed: "(case Math_abs a of NaN \<Rightarrow> Num 0 | n \<Rightarrow> n) = Math_abs (case a of NaN \<Rightarrow> Num 0 | n \<Rightarrow> n)"
  by (cases a) simp_all

lemma fieldNumber_missing: "length cols \<le> i \<Longrightarrow> fieldNumber (nth_opt cols i) = Num 0"
  by (simp add: fieldNumber_def nth_opt_def)

lemma kept_has_nine:
  assumes "gtZero (Math_abs (if numTruthy (fieldNumber (nth_opt cols 8))
              then fieldNumber (nth_opt cols 8) else fieldNumber (nth_opt cols 9)))"
  shows "9 \<le> length cols"
proof (rule ccontr)
  assume "\<not> 9 \<le> length cols"
  then have "length cols \<le> 8" "length cols \<le> 9" by simp_all
  then have "fieldNumber (nth_opt cols 8) = Num 0" "fieldNumber (nth_opt cols 9) = Num 0"
    by (simp_all add: fieldNumber_missing)
  with assms show False by simp
qed

lemma lineOutput_spec:
  "lineOutput engine uuid line = filter (\<lambda>e. csv_amount e \<noteq> Num 0) [spec_entry engine uuid line]"
proof -
  define cols where "cols = split CHR '';'' line"
  define d where "d = fieldNumber (nth_opt cols 8)"
  define c where "c = fieldNumber (nth_opt cols 9)"
  define a where "a = (if numTruthy d then d else c)"
  have sd: "spec_number (spec_field cols 8) = (case d of NaN \<Rightarrow> Num 0 | n \<Rightarrow> n)"
    and sc: "spec_number (spec_field cols 9) = (case c of NaN \<Rightarrow> Num 0 | n \<Rightarrow> n)"
    by (simp_all add: d_def c_def spec_number_fieldNumber)
  have spec_amount: "csv_amount (spec_entry engine uuid line) = Math_abs (case a of NaN \<Rightarrow> Num 0 | n \<Rightarrow> n)"
    using sd sc numTruthy_iff [of d]
    by (simp add: spec_entry_def Let_def cols_def [symmetric] a_def)
  have spec_type: "csv_type (spec_entry engine uuid line) = (if numTruthy d then ''expense'' else ''income'')"
    using sd numTruthy_iff [of d]
    by (simp add: spec_entry_def Let_def cols_def [symmetric])
  have code: "parseLine engine uuid line =
      Inr \<lparr> csv_id = uuid, csv_description = nth_opt cols 2, csv_amount = Math_abs a,
            csv_frequency = ''monthly'', csv_taxes = [],
            csv_type = (if numTruthy d then ''expense'' else ''income''),
            csv_date = newDate engine (join ''-'' (rev (split CHR ''/'' (hd cols)))) \<rparr>"
    by (simp add: parseLine_fieldNumber Let_def cols_def a_def d_def c_def)
  show ?thesis
  proof (cases "gtZero (Math_abs a)")
    case True
    then have "9 \<le> length cols"
      unfolding a_def d_def c_def by (rule kept_has_nine)
    then have desc: "nth_opt cols 2 = Some (spec_field cols 2)"
      and first: "spec_field cols 0 = hd cols"
      by (cases cols; simp add: nth_opt_def spec_field_def)+
    have "spec_entry engine uuid line =
      \<lparr> csv_id = uuid, csv_description = nth_opt cols 2, csv_amount = Math_abs a,
        csv_frequency = ''monthly'', csv_taxes = [],
        csv_type = (if numTruthy d then ''expense'' else ''income''),
        csv_date = newDate engine (join ''-'' (rev (split CHR ''/'' (hd cols)))) \<rparr>"
      using spec_amount spec_type abs_kept [OF True] desc first
      by (simp add: spec_entry_def Let_def cols_def [symmetric])
    moreover have "csv_amount (spec_entry engine uuid line) \<noteq> Num 0"
      using True spec_amount gtZero_abs_iff [of a] by simp
    ultimately show ?thesis
      using True code by (simp add: lineOutput_def)
  next
    case False
    then have "csv_amount (spec_entry engine uuid line) = Num 0"
      using spec_amount gtZero_abs_iff [of a] by simp
    then show ?thesis
      using False code by (simp add: lineOutput_def)
  qed
qed

lemma concat_map_filter_single:
  "concat (map (\<lambda>x. filter P [f x]) xs) = filter P (map f xs)"
  by (induction xs) simp_all

lemma parseCSV_spec: "parseCSV engine uuid content = Inr (spec_parse engine uuid content)"
proof -
  have "(\<lambda>(k, l). lineOutput engine (uuid k) l) =
        (\<lambda>x. filter (\<lambda>e. csv_amount e \<noteq> Num 0) [(\<lambda>(k, l). spec_entry engine (uuid k) l) x])"
    by (auto simp add: lineOutput_spec fun_eq_iff)
  then show ?thesis
    by (simp only: parseCSV_concat concat_map_filter_single spec_parse_def dataLines_def)
qed

lemma parseLine_spec_fields:
  assumes "parseLine engine uuid line = Inr e"
  shows "csv_id e = uuid" "csv_frequency e = ''monthly''" "csv_taxes e = []"
    "csv_type e = csv_type (spec_entry engine uuid line)"
    "csv_date e = csv_date (spec_entry engine uuid line)"
    "(case csv_amount e of NaN \<Rightarrow> Num 0 | n \<Rightarrow> n) = csv_amount (spec_entry engine uuid line)"
proof -
  define cols where "cols = split CHR '';'' line"
  define d where "d = fieldNumber (nth_opt cols 8)"
  define c where "c = fieldNumber (nth_opt cols 9)"
  have sd: "spec_number (spec_field cols 8) = (case d of NaN \<Rightarrow> Num 0 | n \<Rightarrow> n)"
    and sc: "spec_number (spec_field cols 9) = (case c of NaN \<Rightarrow> Num 0 | n \<Rightarrow> n)"
    by (simp_all add: d_def c_def spec_number_fieldNumber)
  have e: "e = \<lparr> csv_id = uuid, csv_description = nth_opt cols 2,
            csv_amount = Math_abs (if numTruthy d then d else c),
            csv_frequency = ''monthly'', csv_taxes = [],
            csv_type = (if numTruthy d then ''expense'' else ''income''),
            csv_date = newDate engine (join ''-'' (rev (split CHR ''/'' (hd cols)))) \<rparr>"
  proof -
    have "parseLine engine uuid line = Inr \<lparr> csv_id = uuid, csv_description = nth_opt cols 2,
            csv_amount = Math_abs (if numTruthy d then d else c),
            csv_frequency = ''monthly'', csv_taxes = [],
            csv_type = (if numTruthy d then ''expense'' else ''income''),
            csv_date = newDate engine (join ''-'' (rev (split CHR ''/'' (hd cols)))) \<rparr>"
      by (simp add: parseLine_fieldNumber Let_def cols_def d_def c_def)
    with assms show ?thesis by simp
  qed
  show "csv_id e = uuid" "csv_frequency e = ''monthly''" "csv_taxes e = []"
    by (simp_all add: e)
  show "csv_type e = csv_type (spec_entry engine uuid line)"
    using sd numTruthy_iff [of d]
    by (simp add: e spec_entry_def Let_def cols_def [symmetric])
  show "csv_date e = csv_date (spec_entry engine uuid line)"
    by (simp add: e spec_entry_def Let_def cols_def spec_field_0)
  show "(case csv_amount e of NaN \<Rightarrow> Num 0 | n \<Rightarrow> n) = csv_amount (spec_entry engine uuid line)"
    using sd sc numTruthy_iff [of d]
    by (simp add: e spec_entry_def Let_def cols_def [symmetric] Math_abs_zeroed)
qed

lemma scenario_B:
  "parseCSV engine uuid exampleStatement =
   Inr [\<lparr> csv_id = uuid 0, csv_description = Some ''Groceries'', csv_amount = Num 45.5,
          csv_frequency = ''monthly'', csv_taxes = [], csv_type = ''expense'',
          csv_date = UTCDate 2024 3 1 \<rparr>]"
  apply (simp add: parseCSV_def dataLines_def trim_def isWhiteSpace_def exampleStatement_def)
  apply (simp add: parseLine_def nth_opt_def Let_def fieldNumber_def)
  apply (simp add: parseFloat_def isWhiteSpace_def isDigit_def digitsVal_def digitVal_def
      pow10_def exponentPart_def Let_def)
  apply (simp add: newDate_def isoDateOnly_def isDigit_def digitsVal_def digitVal_def
      daysInMonth_def leapYear_def)
  done

text \<open>
  Claim C3. The parser implements steps 1 to 5 of the specification for every non-blank
  line after the header: the result of \<open>parseCSV\<close> is the list of the specification's
  entries of those lines (split on the semicolon; column 8 the debit and column 9 the
  credit, an empty or unparseable field read as 0; an expense of the absolute debit
  when the debit is not 0, otherwise an income of the absolute credit; monthly, without
  taxes; the date read from the reversed tokens of column 0), in the order of the
  lines, without the entries of amount 0, which step 6 drops. Line by line, the entry
  that the callback builds has the type, the date, the frequency and the taxes of the
  specification's entry, and its amount once \<open>NaN\<close> is read as 0. Scenario B: the line
  \<open>01/03/2024;;Groceries;;;;;;45.50;;\<close> gives one expense of 45.50, dated 2024-03-01,
  monthly.
\<close>

theorem parseCSV_refines_spec:
  "parseCSV engine uuid content = Inr (spec_parse engine uuid content) \<and>
   (parseLine engine i l = Inr e \<longrightarrow>
      csv_id e = i \<and> csv_frequency e = ''monthly'' \<and> csv_taxes e = [] \<and>
      csv_type e = csv_type (spec_entry engine i l) \<and>
      csv_date e = csv_date (spec_entry engine i l) \<and>
      (case csv_amount e of NaN \<Rightarrow> Num 0 | n \<Rightarrow> n) = csv_amount (spec_entry engine i l) \<and>
      lineOutput engine i l = filter (\<lambda>x. csv_amount x \<noteq> Num 0) [spec_entry engine i l]) \<and>
   parseCSV engine uuid exampleStatement =
     Inr [\<lparr> csv_id = uuid 0, csv_description = Some ''Groceries'', csv_amount = Num 45.5,
            csv_frequency = ''monthly'', csv_taxes = [], csv_type = ''expense'',
            csv_date = UTCDate 2024 3 1 \<rparr>]"
proof -
  have per_line: "parseLine engine i l = Inr e \<longrightarrow>
      csv_id e = i \<and> csv_frequency e = ''monthly'' \<and> csv_taxes e = [] \<and>
      csv_type e = csv_type (spec_entry engine i l) \<and>
      csv_date e = csv_date (spec_entry engine i l) \<and>
      (case csv_amount e of NaN \<Rightarrow> Num 0 | n \<Rightarrow> n) = csv_amount (spec_entry engine i l) \<and>
      lineOutput engine i l = filter (\<lambda>x. csv_amount x \<noteq> Num 0) [spec_entry engine i l]"
    using parseLine_spec_fields [of engine i l e] lineOutput_spec [of engine i l] by blast
  show ?thesis
    by (intro conjI parseCSV_spec per_line scenario_B)
qed

theorem parseCSV_refines_spec_witness:
  "parseCSV (\<lambda>s. False) (\<lambda>k. ''id-1'') exampleStatement =
     Inr [\<lparr> csv_id = ''id-1'', csv_description = Some ''Groceries'', csv_amount = Num 45.5,
            csv_frequency = ''monthly'', csv_taxes = [], csv_type = ''expense'',
            csv_date = UTCDate 2024 3 1 \<rparr>] \<and>
   spec_parse (\<lambda>s. False) (\<lambda>k. ''id-1'') exampleStatement =
     [\<lparr> csv_id = ''id-1'', csv_description = Some ''Groceries'', csv_amount = Num 45.5,
        csv_frequency = ''monthly'', csv_taxes = [], csv_type = ''expense'',
        csv_date = UTCDate 2024 3 1 \<rparr>] \<and>
   parseLine (\<lambda>s. False) ''id-2'' ''02/03/2024;;Refund;;;;;;abc;12'' =
     Inr \<lparr> csv_id = ''id-2'', csv_description = Some ''Refund'', csv_amount = Num 12,
           csv_frequency = ''monthly'', csv_taxes = [], csv_type = ''income'',
           csv_date = UTCDate 2024 3 2 \<rparr> \<and>
   csv_type (spec_entry (\<lambda>s. False) ''id-2'' ''02/03/2024;;Refund;;;;;;abc;12'') = ''income'' \<and>
   csv_amount (spec_entry (\<lambda>s. False) ''id-2'' ''02/03/2024;;Refund;;;;;;abc;12'') = Num 12"
proof -
  have line: "parseLine (\<lambda>s. False) ''id-2'' ''02/03/2024;;Refund;;;;;;abc;12'' =
     Inr \<lparr> csv_id = ''id-2'', csv_description = Some ''Refund'', csv_amount = Num 12,
           csv_frequency = ''monthly'', csv_taxes = [], csv_type = ''income'',
           csv_date = UTCDate 2024 3 2 \<rparr>"
    apply (simp add: parseLine_def nth_opt_def Let_def fieldNumber_def)
    apply (simp add: parseFloat_def isWhiteSpace_def isDigit_def digitsVal_def digitVal_def
        pow10_def exponentPart_def Let_def)
    apply (simp add: newDate_def isoDateOnly_def isDigit_def digitsVal_def digitVal_def
        daysInMonth_def leapYear_def)
    done
  note refines = parseCSV_refines_spec [where engine = "\<lambda>s. False"
      and uuid = "\<lambda>k. ''id-1''" and content = exampleStatement
      and i = "''id-2''" and l = "''02/03/2024;;Refund;;;;;;abc;12''"
      and e = "\<lparr> csv_id = ''id-2'', csv_description = Some ''Refund'', csv_amount = Num 12,
           csv_frequency = ''monthly'', csv_taxes = [], csv_type = ''income'',
           csv_date = UTCDate 2024 3 2 \<rparr>"]
  have code: "parseCSV (\<lambda>s. False) (\<lambda>k. ''id-1'') exampleStatement =
     Inr [\<lparr> csv_id = ''id-1'', csv_description = Some ''Groceries'', csv_amount = Num 45.5,
            csv_frequency = ''monthly'', csv_taxes = [], csv_type = ''expense'',
            csv_date = UTCDate 2024 3 1 \<rparr>]"
    using refines by blast
  have "parseCSV (\<lambda>s. False) (\<lambda>k. ''id-1'') exampleStatement = Inr (spec_parse (\<lambda>s. False) (\<lambda>k. ''id-1'') exampleStatement)"
    using refines by blast
  with code have spec: "spec_parse (\<lambda>s. False) (\<lambda>k. ''id-1'') exampleStatement =
     [\<lparr> csv_id = ''id-1'', csv_description = Some ''Groceries'', csv_amount = Num 45.5,
        csv_frequency = ''monthly'', csv_taxes = [], csv_type = ''expense'',
        csv_date = UTCDate 2024 3 1 \<rparr>]"
    by simp
  have "csv_type (spec_entry (\<lambda>s. False) ''id-2'' ''02/03/2024;;Refund;;;;;;abc;12'') = ''income''"
    "csv_amount (spec_entry (\<lambda>s. False) ''id-2'' ''02/03/2024;;Refund;;;;;;abc;12'') = Num 12"
    using refines line by simp_all
  with code spec line show ?thesis by blast
qed


section \<open>Blank lines, short lines and empty amounts\<close>

lemma spec_field_pad: "spec_field (cols @ replicate n []) i = spec_field cols i"
  by (simp add: spec_field_def nth_opt_def nth_append)

lemma spec_entry_pad:
  "spec_entry engine uuid (l @ replicate n CHR '';'') = spec_entry engine uuid l"
  by (simp add: spec_entry_def Let_def split_replicate_sep spec_field_pad)

lemma lineOutput_pad: "lineOutput engine uuid (l @ replicate n CHR '';'') = lineOutput engine uuid l"
  by (simp add: lineOutput_spec spec_entry_pad)

lemma lineOutput_short:
  assumes "length (split CHR '';'' l) < 9"
  shows "lineOutput engine uuid l = []"
proof -
  have "spec_field (split CHR '';'' l) 8 = []" "spec_field (split CHR '';'' l) 9 = []"
    using assms by (simp_all add: spec_field_def nth_opt_def)
  then show ?thesis
    by (simp add: lineOutput_spec spec_entry_def Let_def spec_number_def)
qed

lemma lineOutput_both_empty:
  assumes "nth_opt (split CHR '';'' l) 8 = None \<or> nth_opt (split CHR '';'' l) 8 = Some []"
    and "nth_opt (split CHR '';'' l) 9 = None \<or> nth_opt (split CHR '';'' l) 9 = Some []"
  shows "lineOutput engine uuid l = []"
proof -
  have "spec_field (split CHR '';'' l) 8 = []" "spec_field (split CHR '';'' l) 9 = []"
    using assms by (auto simp add: spec_field_def)
  then show ?thesis
    by (simp add: lineOutput_spec spec_entry_def Let_def spec_number_def)
qed

lemma dataLines_blank:
  assumes "trim b = []"
  shows "dataLines (pre @ CHR 0x0A # b @ CHR 0x0A # post) = dataLines (pre @ CHR 0x0A # post)"
proof -
  obtain h hs where h: "split CHR 0x0A pre = h # hs"
    using split_not_Nil [of "CHR 0x0A" pre] by (cases "split CHR 0x0A pre") auto
  have "split CHR 0x0A (pre @ CHR 0x0A # b @ CHR 0x0A # post) =
        split CHR 0x0A pre @ split CHR 0x0A b @ split CHR 0x0A post"
    using split_append_sep [of "CHR 0x0A" pre "b @ CHR 0x0A # post"]
      split_append_sep [of "CHR 0x0A" b post] by simp
  moreover have "split CHR 0x0A (pre @ CHR 0x0A # post) =
        split CHR 0x0A pre @ split CHR 0x0A post"
    by (rule split_append_sep)
  ultimately show ?thesis
    using h blank_pieces [OF assms, of "CHR 0x0A"] by (simp add: dataLines_def)
qed

lemma parseCSV_blank:
  "trim b = [] \<Longrightarrow>
   parseCSV engine uuid (pre @ CHR 0x0A # b @ CHR 0x0A # post) = parseCSV engine uuid (pre @ CHR 0x0A # post)"
  by (simp add: parseCSV_def dataLines_blank)

lemma dataLines_blank_last:
  assumes "trim b = []"
  shows "dataLines (pre @ CHR 0x0A # b) = dataLines pre"
proof -
  obtain h hs where h: "split CHR 0x0A pre = h # hs"
    using split_not_Nil [of "CHR 0x0A" pre] by (cases "split CHR 0x0A pre") auto
  have "split CHR 0x0A (pre @ CHR 0x0A # b) = split CHR 0x0A pre @ split CHR 0x0A b"
    by (rule split_append_sep)
  then show ?thesis
    using h blank_pieces [OF assms, of "CHR 0x0A"] by (simp add: dataLines_def)
qed

lemma parseCSV_blank_last:
  "trim b = [] \<Longrightarrow> parseCSV engine uuid (pre @ CHR 0x0A # b) = parseCSV engine uuid pre"
  by (simp add: parseCSV_def dataLines_blank_last)

lemma numTruthy_kept: "numTruthy d \<Longrightarrow> gtZero (Math_abs d)"
  by (cases d) simp_all

lemma lineOutput_nine:
  assumes "length (split CHR '';'' l) = 9"
  shows "lineOutput engine uuid l =
     (if numTruthy (fieldNumber (nth_opt (split CHR '';'' l) 8))
      then [\<lparr> csv_id = uuid,
               csv_description = Some (split CHR '';'' l ! 2),
               csv_amount = Math_abs (fieldNumber (nth_opt (split CHR '';'' l) 8)),
               csv_frequency = ''monthly'',
               csv_taxes = [],
               csv_type = ''expense'',
               csv_date = newDate engine (join ''-'' (rev (split CHR ''/'' (split CHR '';'' l ! 0)))) \<rparr>]
      else [])"
proof -
  define cols where "cols = split CHR '';'' l"
  have len: "length cols = 9"
    using assms by (simp add: cols_def)
  have credit: "fieldNumber (nth_opt cols 9) = Num 0"
    using len by (simp add: fieldNumber_missing)
  have desc: "nth_opt cols 2 = Some (cols ! 2)"
    using len by (simp add: nth_opt_def)
  have first: "hd cols = cols ! 0"
    using len by (cases cols) simp_all
  show ?thesis
    using credit desc first numTruthy_kept [of "fieldNumber (nth_opt cols 8)"]
    by (simp add: lineOutput_def parseLine_fieldNumber Let_def cols_def [symmetric])
qed

lemma scenario_C:
  "parseCSV engine uuid
     (''Date;Ref;Label;A;B;C;D;E;Debit;Credit;'' @ [CHR 0x0A] @
      ''01/03/2024;;Groceries;;;;;;;;'') = Inr []"
  apply (simp add: parseCSV_def dataLines_def trim_def isWhiteSpace_def)
  apply (simp add: parseLine_def nth_opt_def Let_def fieldNumber_def)
  done

text \<open>
  Claim C8, as stated: every line with fewer than 10 fields has debit and credit 0 and
  is dropped. A line of 9 fields still has its column 8: for
  \<open>01/03/2024;;Groceries;;;;;;45.50\<close> the parser returns an expense of 45.50.
\<close>

theorem nine_fields_counterexample:
  "length (split CHR '';'' ''01/03/2024;;Groceries;;;;;;45.50'') = 9 \<and>
   parseCSV (\<lambda>s. False) (\<lambda>k. ''id-1'')
     (''Date;Ref;Label;A;B;C;D;E;Debit;Credit;'' @ [CHR 0x0A] @
      ''01/03/2024;;Groceries;;;;;;45.50'') =
   Inr [\<lparr> csv_id = ''id-1'', csv_description = Some ''Groceries'', csv_amount = Num 45.5,
          csv_frequency = ''monthly'', csv_taxes = [], csv_type = ''expense'',
          csv_date = UTCDate 2024 3 1 \<rparr>]"
  apply (simp add: parseCSV_def dataLines_def trim_def isWhiteSpace_def)
  apply (simp add: parseLine_def nth_opt_def Let_def fieldNumber_def)
  apply (simp add: parseFloat_def isWhiteSpace_def isDigit_def digitsVal_def digitVal_def
      pow10_def exponentPart_def Let_def)
  apply (simp add: newDate_def isoDateOnly_def isDigit_def digitsVal_def digitVal_def
      daysInMonth_def leapYear_def)
  done

text \<open>
  Claim C8, amended. The parser never fails: its result is the concatenation, in the
  order of the lines, of what each non-blank line after the header adds. A blank line
  adds nothing and takes no identifier: removing it from the input, be it between two
  lines or at the end (the empty line after a final line feed), changes nothing. A
  missing field is read like an empty one: appending empty fields to a line does not
  change what the line adds, so a missing debit or credit is 0. A line with fewer than
  9 fields has both missing and adds no entry. A line of exactly 9 fields keeps its
  debit in column 8: when that debit is not 0 the line adds one expense entry with the
  absolute debit as amount, and otherwise it adds none. A line whose debit and credit
  are both empty or missing adds no entry, an entry of amount 0 is dropped, and every
  entry of the result has an amount above 0. Scenario C: a line with both columns empty
  produces no entry.
\<close>

theorem parseCSV_lenient:
  "parseCSV engine uuid content =
     Inr (concat (map (\<lambda>(k, l). lineOutput engine (uuid k) l) (enumerate 0 (dataLines content)))) \<and>
   (trim b = [] \<longrightarrow>
      parseCSV engine uuid (pre @ CHR 0x0A # b @ CHR 0x0A # post) =
      parseCSV engine uuid (pre @ CHR 0x0A # post) \<and>
      parseCSV engine uuid (pre @ CHR 0x0A # b) = parseCSV engine uuid pre) \<and>
   lineOutput engine i (l @ replicate n CHR '';'') = lineOutput engine i l \<and>
   (length (split CHR '';'' l) < 9 \<longrightarrow> lineOutput engine i l = []) \<and>
   (length (split CHR '';'' l) = 9 \<longrightarrow>
      lineOutput engine i l =
        (if numTruthy (fieldNumber (nth_opt (split CHR '';'' l) 8))
         then [\<lparr> csv_id = i,
                  csv_description = Some (split CHR '';'' l ! 2),
                  csv_amount = Math_abs (fieldNumber (nth_opt (split CHR '';'' l) 8)),
                  csv_frequency = ''monthly'',
                  csv_taxes = [],
                  csv_type = ''expense'',
                  csv_date =
                    newDate engine
                      (join ''-'' (rev (split CHR ''/'' (split CHR '';'' l ! 0)))) \<rparr>]
         else [])) \<and>
   ((nth_opt (split CHR '';'' l) 8 = None \<or> nth_opt (split CHR '';'' l) 8 = Some []) \<and>
    (nth_opt (split CHR '';'' l) 9 = None \<or> nth_opt (split CHR '';'' l) 9 = Some [])
      \<longrightarrow> lineOutput engine i l = []) \<and>
   (parseLine engine i l = Inr e \<and> csv_amount e = Num 0 \<longrightarrow> lineOutput engine i l = []) \<and>
   (parseCSV engine uuid content = Inr es \<longrightarrow> (\<forall>x\<in>set es. gtZero (csv_amount x))) \<and>
   parseCSV engine uuid
     (''Date;Ref;Label;A;B;C;D;E;Debit;Credit;'' @ [CHR 0x0A] @
      ''01/03/2024;;Groceries;;;;;;;;'') = Inr []"
proof -
  have A: "trim b = [] \<longrightarrow>
      parseCSV engine uuid (pre @ CHR 0x0A # b @ CHR 0x0A # post) =
      parseCSV engine uuid (pre @ CHR 0x0A # post) \<and>
      parseCSV engine uuid (pre @ CHR 0x0A # b) = parseCSV engine uuid pre"
    by (simp add: parseCSV_blank parseCSV_blank_last)
  have B: "length (split CHR '';'' l) < 9 \<longrightarrow> lineOutput engine i l = []"
    by (simp add: lineOutput_short)
  have B9: "length (split CHR '';'' l) = 9 \<longrightarrow>
      lineOutput engine i l =
        (if numTruthy (fieldNumber (nth_opt (split CHR '';'' l) 8))
         then [\<lparr> csv_id = i,
                  csv_description = Some (split CHR '';'' l ! 2),
                  csv_amount = Math_abs (fieldNumber (nth_opt (split CHR '';'' l) 8)),
                  csv_frequency = ''monthly'',
                  csv_taxes = [],
                  csv_type = ''expense'',
                  csv_date =
                    newDate engine
                      (join ''-'' (rev (split CHR ''/'' (split CHR '';'' l ! 0)))) \<rparr>]
         else [])"
    using lineOutput_nine [of l engine i] by blast
  have C: "(nth_opt (split CHR '';'' l) 8 = None \<or> nth_opt (split CHR '';'' l) 8 = Some []) \<and>
    (nth_opt (split CHR '';'' l) 9 = None \<or> nth_opt (split CHR '';'' l) 9 = Some [])
      \<longrightarrow> lineOutput engine i l = []"
    using lineOutput_both_empty [of l engine i] by blast
  have D: "parseLine engine i l = Inr e \<and> csv_amount e = Num 0 \<longrightarrow> lineOutput engine i l = []"
    using lineOutput_zero [of engine i l e] by blast
  have E: "parseCSV engine uuid content = Inr es \<longrightarrow> (\<forall>x\<in>set es. gtZero (csv_amount x))"
    using parseCSV_positive [of engine uuid content es] by blast
  show ?thesis
    by (intro conjI parseCSV_concat A lineOutput_pad B B9 C D E scenario_C)
qed

theorem parseCSV_lenient_witness:
  "trim [CHR 0x20, CHR 0x0D] = [] \<and>
   parseCSV (\<lambda>s. False) (\<lambda>k. ''id-1'')
     (''Header'' @ CHR 0x0A # [CHR 0x20, CHR 0x0D] @ CHR 0x0A # ''01/03/2024;;Groceries;;;;;;45.50;;'') =
   parseCSV (\<lambda>s. False) (\<lambda>k. ''id-1'') (''Header'' @ CHR 0x0A # ''01/03/2024;;Groceries;;;;;;45.50;;'') \<and>
   length (split CHR '';'' ''01/03/2024;;Groceries'') < 9 \<and>
   lineOutput (\<lambda>s. False) ''id-1'' ''01/03/2024;;Groceries'' = [] \<and>
   length (split CHR '';'' ''01/03/2024;;Groceries;;;;;;45.50'') = 9 \<and>
   lineOutput (\<lambda>s. False) ''id-1'' ''01/03/2024;;Groceries;;;;;;45.50'' =
     [\<lparr> csv_id = ''id-1'', csv_description = Some ''Groceries'', csv_amount = Num 45.5,
        csv_frequency = ''monthly'', csv_taxes = [], csv_type = ''expense'',
        csv_date = UTCDate 2024 3 1 \<rparr>] \<and>
   lineOutput (\<lambda>s. False) ''id-1'' (''01/03/2024;;Groceries;;;;;;45.50'' @ replicate 1 CHR '';'') =
     [\<lparr> csv_id = ''id-1'', csv_description = Some ''Groceries'', csv_amount = Num 45.5,
        csv_frequency = ''monthly'', csv_taxes = [], csv_type = ''expense'',
        csv_date = UTCDate 2024 3 1 \<rparr>]"
proof -
  note blank = parseCSV_lenient [where engine = "\<lambda>s. False"
      and uuid = "\<lambda>k. ''id-1''" and b = "[CHR 0x20, CHR 0x0D]"
      and pre = "''Header''" and post = "''01/03/2024;;Groceries;;;;;;45.50;;''"
      and i = "''id-1''" and l = "''01/03/2024;;Groceries''" and n = 1]
  note nine = parseCSV_lenient [where engine = "\<lambda>s. False" and i = "''id-1''"
      and l = "''01/03/2024;;Groceries;;;;;;45.50''" and n = 1]
  have t: "trim [CHR 0x20, CHR 0x0D] = []"
    by (simp add: trim_def isWhiteSpace_def)
  have debit: "fieldNumber (nth_opt (split CHR '';'' ''01/03/2024;;Groceries;;;;;;45.50'') 8) = Num 45.5"
    apply (simp add: nth_opt_def fieldNumber_def)
    apply (simp add: parseFloat_def isWhiteSpace_def isDigit_def digitsVal_def digitVal_def
        pow10_def exponentPart_def Let_def)
    done
  have date: "newDate (\<lambda>s. False)
      (join ''-'' (rev (split CHR ''/'' (split CHR '';'' ''01/03/2024;;Groceries;;;;;;45.50'' ! 0)))) =
      UTCDate 2024 3 1"
    by (simp add: newDate_def isoDateOnly_def isDigit_def digitsVal_def digitVal_def
        daysInMonth_def leapYear_def)
  have len: "length (split CHR '';'' ''01/03/2024;;Groceries;;;;;;45.50'') = 9"
    by simp
  have kept: "lineOutput (\<lambda>s. False) ''id-1'' ''01/03/2024;;Groceries;;;;;;45.50'' =
     [\<lparr> csv_id = ''id-1'', csv_description = Some ''Groceries'', csv_amount = Num 45.5,
        csv_frequency = ''monthly'', csv_taxes = [], csv_type = ''expense'',
        csv_date = UTCDate 2024 3 1 \<rparr>]"
    using nine len debit date by simp
  have padded: "lineOutput (\<lambda>s. False) ''id-1''
       (''01/03/2024;;Groceries;;;;;;45.50'' @ replicate 1 CHR '';'') =
     lineOutput (\<lambda>s. False) ''id-1'' ''01/03/2024;;Groceries;;;;;;45.50''"
    using nine by blast
  have short: "length (split CHR '';'' ''01/03/2024;;Groceries'') < 9"
    by simp
  have dropped: "lineOutput (\<lambda>s. False) ''id-1'' ''01/03/2024;;Groceries'' = []"
    using blank short by blast
  have skipped: "parseCSV (\<lambda>s. False) (\<lambda>k. ''id-1'')
     (''Header'' @ CHR 0x0A # [CHR 0x20, CHR 0x0D] @ CHR 0x0A # ''01/03/2024;;Groceries;;;;;;45.50;;'') =
   parseCSV (\<lambda>s. False) (\<lambda>k. ''id-1'') (''Header'' @ CHR 0x0A # ''01/03/2024;;Groceries;;;;;;45.50;;'')"
    using blank t by blast
  show ?thesis
    using t skipped short dropped len kept padded by (simp only: simp_thms)
qed


section \<open>Rows with a date that cannot be parsed\<close>

lemma no_digit_date_string:
  assumes "\<not> list_ex isDigit tok"
  shows "\<not> list_ex isDigit (join ''-'' (rev (split CHR ''/'' tok)))"
proof -
  have "set (join ''-'' (rev (split CHR ''/'' tok))) \<subseteq> {CHR ''-''} \<union> set tok"
    using join_chars [of "''-''" "rev (split CHR ''/'' tok)"]
      split_pieces_subset [of _ "CHR ''/''" tok] by auto
  moreover have "\<not> isDigit CHR ''-''" by (simp add: isDigit_def)
  ultimately show ?thesis
    using assms by (auto simp add: list_ex_iff)
qed

lemma newDate_no_digit:
  "\<not> list_ex isDigit tok \<Longrightarrow> newDate engine (join ''-'' (rev (split CHR ''/'' tok))) = InvalidDate"
  using no_digit_date_string [of tok] by (simp add: newDate_def)

lemma daysInMonth_le: "daysInMonth y m \<le> 31"
  by (simp add: daysInMonth_def)

lemma newDate_out_of_range:
  "isoDateOnly s = Some (y, m, d) \<Longrightarrow> m < 1 \<or> 12 < m \<or> d < 1 \<or> 31 < d
     \<Longrightarrow> newDate engine s = InvalidDate"
  using daysInMonth_le [of y m] by (auto simp add: newDate_def)

lemma newDate_unrecognised:
  "isoDateOnly s = None \<Longrightarrow> \<not> engine s \<Longrightarrow> newDate engine s = InvalidDate"
  by (simp add: newDate_def)

lemma parseLine_date:
  assumes "nth_opt (split CHR '';'' l) 0 = Some tok" "parseLine engine uuid l = Inr e"
  shows "csv_date e = newDate engine (join ''-'' (rev (split CHR ''/'' tok)))"
    "lineOutput engine uuid l = (if gtZero (csv_amount e) then [e] else [])"
proof -
  show "csv_date e = newDate engine (join ''-'' (rev (split CHR ''/'' tok)))"
    using assms by (auto simp add: parseLine_def Let_def)
  show "lineOutput engine uuid l = (if gtZero (csv_amount e) then [e] else [])"
    using assms(2) by (simp add: lineOutput_def)
qed

text \<open>
  Claim C9, as stated: a row whose date token cannot be parsed fails with
  \<open>InvalidDate\<close>. The parser has no error for it: for the row \<open>n/a;;Rent;;;;;;100;\<close>
  it returns, without failing, an entry whose date is \<open>Invalid Date\<close>.
\<close>

theorem bad_date_row_counterexample:
  "parseCSV (\<lambda>s. False) (\<lambda>k. ''id-1'')
     (''Date;Ref;Label;A;B;C;D;E;Debit;Credit;'' @ [CHR 0x0A] @ ''n/a;;Rent;;;;;;100;'') =
   Inr [\<lparr> csv_id = ''id-1'', csv_description = Some ''Rent'', csv_amount = Num 100,
          csv_frequency = ''monthly'', csv_taxes = [], csv_type = ''expense'',
          csv_date = InvalidDate \<rparr>]"
  apply (simp add: parseCSV_def dataLines_def trim_def isWhiteSpace_def)
  apply (simp add: parseLine_def nth_opt_def Let_def fieldNumber_def)
  apply (simp add: parseFloat_def isWhiteSpace_def isDigit_def digitsVal_def digitVal_def
      pow10_def exponentPart_def Let_def)
  apply (simp add: newDate_def isDigit_def)
  done

text \<open>
  Claim C9, amended. No row makes the parser fail, whatever its date token and on
  whatever engine: the callback returns an entry for every line. For every row whose
  date token cannot be parsed, that is whose reversed token \<open>new Date\<close> reads as
  \<open>Invalid Date\<close>, the date of the entry is \<open>Invalid Date\<close>, and the entry is kept or
  dropped by its amount like any other. That is the case for a token without a digit,
  for a date-only string whose month or day is out of range (\<open>32/13/2024\<close>), and for
  any other string that the engine does not recognise. The result of the parser is the
  concatenation of what each line adds, so a row with a bad date never aborts the
  parsing of the rest of the file.
\<close>

theorem parseCSV_bad_date:
  "(\<exists>x. parseLine engine i l = Inr x) \<and>
   (nth_opt (split CHR '';'' l) 0 = Some tok \<and>
    newDate engine (join ''-'' (rev (split CHR ''/'' tok))) = InvalidDate \<and>
    parseLine engine i l = Inr e
      \<longrightarrow> csv_date e = InvalidDate \<and>
          lineOutput engine i l = (if gtZero (csv_amount e) then [e] else [])) \<and>
   (\<not> list_ex isDigit tok \<longrightarrow>
      newDate engine (join ''-'' (rev (split CHR ''/'' tok))) = InvalidDate) \<and>
   (isoDateOnly s = Some (y, m, d) \<and> (m < 1 \<or> 12 < m \<or> d < 1 \<or> 31 < d) \<longrightarrow>
      newDate engine s = InvalidDate) \<and>
   (isoDateOnly s = None \<and> \<not> engine s \<longrightarrow> newDate engine s = InvalidDate) \<and>
   parseCSV engine uuid content =
     Inr (concat (map (\<lambda>(k, l). lineOutput engine (uuid k) l) (enumerate 0 (dataLines content))))"
proof -
  have row: "nth_opt (split CHR '';'' l) 0 = Some tok \<and>
    newDate engine (join ''-'' (rev (split CHR ''/'' tok))) = InvalidDate \<and>
    parseLine engine i l = Inr e
      \<longrightarrow> csv_date e = InvalidDate \<and>
          lineOutput engine i l = (if gtZero (csv_amount e) then [e] else [])"
    using parseLine_date [of l tok engine i e] by auto
  have digits: "\<not> list_ex isDigit tok \<longrightarrow>
      newDate engine (join ''-'' (rev (split CHR ''/'' tok))) = InvalidDate"
    by (simp add: newDate_no_digit)
  have range: "isoDateOnly s = Some (y, m, d) \<and> (m < 1 \<or> 12 < m \<or> d < 1 \<or> 31 < d) \<longrightarrow>
      newDate engine s = InvalidDate"
    using newDate_out_of_range [of s y m d engine] by blast
  have unknown: "isoDateOnly s = None \<and> \<not> engine s \<longrightarrow> newDate engine s = InvalidDate"
    using newDate_unrecognised [of s engine] by blast
  show ?thesis
    by (intro conjI parseLine_returns row digits range unknown parseCSV_concat)
qed

theorem parseCSV_bad_date_witness:
  "nth_opt (split CHR '';'' ''32/13/2024;;Rent;;;;;;100;'') 0 = Some ''32/13/2024'' \<and>
   newDate (\<lambda>s. True) (join ''-'' (rev (split CHR ''/'' ''32/13/2024''))) = InvalidDate \<and>
   parseLine (\<lambda>s. True) ''id-1'' ''32/13/2024;;Rent;;;;;;100;'' =
     Inr \<lparr> csv_id = ''id-1'', csv_description = Some ''Rent'', csv_amount = Num 100,
           csv_frequency = ''monthly'', csv_taxes = [], csv_type = ''expense'',
           csv_date = InvalidDate \<rparr> \<and>
   lineOutput (\<lambda>s. True) ''id-1'' ''32/13/2024;;Rent;;;;;;100;'' =
     [\<lparr> csv_id = ''id-1'', csv_description = Some ''Rent'', csv_amount = Num 100,
        csv_frequency = ''monthly'', csv_taxes = [], csv_type = ''expense'',
        csv_date = InvalidDate \<rparr>] \<and>
   newDate (\<lambda>s. False) (join ''-'' (rev (split CHR ''/'' ''n/a''))) = InvalidDate"
proof -
  note inst = parseCSV_bad_date [where engine = "\<lambda>s. True" and i = "''id-1''"
      and l = "''32/13/2024;;Rent;;;;;;100;''" and tok = "''32/13/2024''"
      and s = "''2024-13-32''" and y = 2024 and m = 13 and d = 32
      and e = "\<lparr> csv_id = ''id-1'', csv_description = Some ''Rent'', csv_amount = Num 100,
           csv_frequency = ''monthly'', csv_taxes = [], csv_type = ''expense'',
           csv_date = InvalidDate \<rparr>"]
  have iso: "isoDateOnly ''2024-13-32'' = Some (2024, 13, 32)"
    by (simp add: isoDateOnly_def isDigit_def digitsVal_def digitVal_def)
  have str: "join ''-'' (rev (split CHR ''/'' ''32/13/2024'')) = ''2024-13-32''"
    by simp
  have invalid: "newDate (\<lambda>s. True) (join ''-'' (rev (split CHR ''/'' ''32/13/2024''))) = InvalidDate"
    using inst iso unfolding str by simp
  have tok: "nth_opt (split CHR '';'' ''32/13/2024;;Rent;;;;;;100;'') 0 = Some ''32/13/2024''"
    by (simp add: nth_opt_def)
  have amount: "fieldNumber (nth_opt (split CHR '';'' ''32/13/2024;;Rent;;;;;;100;'') 8) = Num 100"
    apply (simp add: nth_opt_def fieldNumber_def)
    apply (simp add: parseFloat_def isWhiteSpace_def isDigit_def digitsVal_def digitVal_def
        pow10_def exponentPart_def Let_def)
    done
  have credit: "fieldNumber (nth_opt (split CHR '';'' ''32/13/2024;;Rent;;;;;;100;'') 9) = Num 0"
    by (simp add: nth_opt_def fieldNumber_def)
  have line: "parseLine (\<lambda>s. True) ''id-1'' ''32/13/2024;;Rent;;;;;;100;'' =
     Inr \<lparr> csv_id = ''id-1'', csv_description = Some ''Rent'', csv_amount = Num 100,
           csv_frequency = ''monthly'', csv_taxes = [], csv_type = ''expense'',
           csv_date = InvalidDate \<rparr>"
    using amount credit invalid
    by (simp add: parseLine_fieldNumber Let_def nth_opt_def)
  have out: "lineOutput (\<lambda>s. True) ''id-1'' ''32/13/2024;;Rent;;;;;;100;'' =
     [\<lparr> csv_id = ''id-1'', csv_description = Some ''Rent'', csv_amount = Num 100,
        csv_frequency = ''monthly'', csv_taxes = [], csv_type = ''expense'',
        csv_date = InvalidDate \<rparr>]"
    using inst tok invalid line by simp
  have na: "newDate (\<lambda>s. False) (join ''-'' (rev (split CHR ''/'' ''n/a''))) = InvalidDate"
    using parseCSV_bad_date [where engine = "\<lambda>s. False" and tok = "''n/a''"]
    by (simp add: isDigit_def)
  show ?thesis
    using tok invalid line out na by (simp only: simp_thms)
qed


section \<open>Determinism of the parser\<close>

lemma spec_entry_erase_id: "(spec_entry engine uuid l)\<lparr>csv_id := []\<rparr> = spec_entry engine [] l"
  by (simp add: spec_entry_def Let_def)

lemma spec_entry_amount_id: "csv_amount (spec_entry engine uuid l) = csv_amount (spec_entry engine [] l)"
  by (simp add: spec_entry_def Let_def)

lemma spec_parse_erase_id:
  "map (\<lambda>e. e\<lparr>csv_id := []\<rparr>) (spec_parse engine uuid content) =
   filter (\<lambda>e. csv_amount e \<noteq> Num 0)
     (map (spec_entry engine []) (filter (\<lambda>line. trim line \<noteq> []) (drop 1 (split CHR 0x0A content))))"
proof -
  have "map (\<lambda>e. e\<lparr>csv_id := []\<rparr>) (filter (\<lambda>e. csv_amount e \<noteq> Num 0)
          (map (\<lambda>(k, l). spec_entry engine (uuid k) l) (enumerate n xs))) =
        filter (\<lambda>e. csv_amount e \<noteq> Num 0) (map (spec_entry engine []) xs)" for n xs
    by (induction xs arbitrary: n)
      (simp_all add: spec_entry_erase_id spec_entry_amount_id [of engine "uuid _"])
  then show ?thesis by (simp add: spec_parse_def)
qed

lemma enumerate_index_bound: "(k, l) \<in> set (enumerate n xs) \<Longrightarrow> n \<le> k \<and> k < n + length xs"
  by (auto simp add: in_set_enumerate_eq)

lemma parseCSV_same_ids:
  assumes "\<forall>k<length (dataLines content). u1 k = u2 k"
  shows "parseCSV engine u1 content = parseCSV engine u2 content"
proof -
  have "map (\<lambda>(k, l). lineOutput engine (u1 k) l) (enumerate 0 (dataLines content)) =
        map (\<lambda>(k, l). lineOutput engine (u2 k) l) (enumerate 0 (dataLines content))"
    using assms enumerate_index_bound [of _ _ 0 "dataLines content"]
    by (intro map_cong) auto
  then show ?thesis by (simp only: parseCSV_concat)
qed

text \<open>
  Claim C5, as stated: two runs on the same text produce identical sequences. Every
  entry takes its \<open>id\<close> from \<open>crypto.randomUUID()\<close>: two runs that draw different
  identifiers return different sequences for the statement of scenario B.
\<close>

theorem random_ids_counterexample:
  "parseCSV (\<lambda>s. False) (\<lambda>k. ''uuid-a'') exampleStatement \<noteq> parseCSV (\<lambda>s. False) (\<lambda>k. ''uuid-b'') exampleStatement"
  by (simp add: scenario_B)

text \<open>
  Claim C5, amended. Two runs of the parser on the same text (and the same engine)
  return sequences that are
  identical once the freshly drawn \<open>id\<close> of each entry is set aside, and identical
  altogether when both runs draw the same identifiers for the data lines. The entries
  stand in the order of the input lines: the result is the concatenation, line after
  line, of what each line adds, which is at most one entry.
\<close>

theorem parseCSV_deterministic_up_to_ids:
  "(\<exists>es1 es2. parseCSV engine u1 content = Inr es1 \<and> parseCSV engine u2 content = Inr es2 \<and>
      map (\<lambda>e. e\<lparr>csv_id := []\<rparr>) es1 = map (\<lambda>e. e\<lparr>csv_id := []\<rparr>) es2) \<and>
   ((\<forall>k<length (dataLines content). u1 k = u2 k) \<longrightarrow> parseCSV engine u1 content = parseCSV engine u2 content) \<and>
   parseCSV engine u1 content =
     Inr (concat (map (\<lambda>(k, l). lineOutput engine (u1 k) l) (enumerate 0 (dataLines content)))) \<and>
   length (lineOutput engine i l) \<le> 1"
proof -
  have "map (\<lambda>e. e\<lparr>csv_id := []\<rparr>) (spec_parse engine u1 content) =
        map (\<lambda>e. e\<lparr>csv_id := []\<rparr>) (spec_parse engine u2 content)"
    by (simp only: spec_parse_erase_id)
  then have A: "\<exists>es1 es2. parseCSV engine u1 content = Inr es1 \<and> parseCSV engine u2 content = Inr es2 \<and>
      map (\<lambda>e. e\<lparr>csv_id := []\<rparr>) es1 = map (\<lambda>e. e\<lparr>csv_id := []\<rparr>) es2"
    using parseCSV_spec [of engine u1 content] parseCSV_spec [of engine u2 content] by blast
  show ?thesis
    using A parseCSV_same_ids [of content u1 u2 engine] parseCSV_concat [of engine u1 content]
      lineOutput_length [of engine i l]
    by blast
qed

theorem parseCSV_deterministic_up_to_ids_witness:
  "length (dataLines exampleStatement) = 1 \<and>
   parseCSV (\<lambda>s. False) (\<lambda>k. ''uuid-a'') exampleStatement =
   parseCSV (\<lambda>s. False) (\<lambda>k. if k = 0 then ''uuid-a'' else ''uuid-z'') exampleStatement"
  using parseCSV_deterministic_up_to_ids [where engine = "\<lambda>s. False"
      and ?u1.0 = "\<lambda>k. ''uuid-a''"
      and ?u2.0 = "\<lambda>k. if k = 0 then ''uuid-a'' else ''uuid-z''" and content = exampleStatement]
  by (simp add: dataLines_def exampleStatement_def trim_def isWhiteSpace_def)

end
